theory Spec2Isabelle
  imports Complex_Main
begin

section \<open>Values, errors and events\<close>

text \<open>
  The run cache of \<^verbatim>\<open>src/model/eval.py\<close> (class \<^verbatim>\<open>Model\<close>) is embedded function by
  function. Python numbers are real numbers here (rounding is not modelled); the
  not-a-number and infinite values that numpy arrays can hold are the extra
  constructors of \<open>npfloat\<close>. An exception is a value of \<open>error\<close>.
\<close>

datatype error =
    ValueError | TypeError | NameError | AttributeError | KeyError
  | OSError | AssertionError | RecursionError | IndexError | UnboundLocalError

datatype pyval = PNone | PNum real | PStr string

type_synonym options = "string \<rightharpoonup> pyval"

datatype npfloat = Fin real | PosInf | NegInf | NaN

text \<open>
  Directories. A parameter set directory is \<^verbatim>\<open><output>/<time step>/<index>\<close>; runs live
  under its spinup directory or under one of its partial derivative directories
  (\<^verbatim>\<open>MODEL_PARTIAL_DERIVATIVE_DIRNAME.format(parameter_index, h_factor)\<close>); a run directory
  is its parent and its run index (\<^verbatim>\<open>MODEL_RUN_DIRNAME.format(index)\<close>). A trajectory job runs
  in a temporary directory made for one input run.
\<close>

type_synonym parameter_set_dir = "int \<times> nat"

datatype run_parent =
    Spinup_Dir parameter_set_dir
  | Partial_Derivative_Dir parameter_set_dir nat int

type_synonym run_dir = "run_parent \<times> nat"

datatype job_dir = Run_Dir run_dir | Trajectory_Dir run_dir

text \<open>What \<^verbatim>\<open>job.init\<close> is given, and a stored job with the two values the handle reports.\<close>

record job_request =
  job_parameters :: "real list"
  job_years :: real
  job_tolerance :: real
  job_time_step :: int
  job_write_trajectory :: bool
  job_tracer_input_path :: "run_dir option"
  job_setup_options :: options

record job =
  request :: job_request
  last_year :: real
  last_tolerance :: real

record run =
  run_options_file :: "(real \<times> real \<times> int) option"
  job_file :: "job option"

datatype file_mode = Writable | Read_Only

record parameter_set =
  stored_parameters :: "(real list \<times> file_mode) option"

text \<open>
  The directory tree is the only state. \<open>time_step_dirs\<close> gives, for a time step whose
  directory exists, its parameter set directories in the order \<^verbatim>\<open>util.io.get_dirs\<close> lists
  them; \<open>runs_in\<close> gives the runs of a parent directory that exists, run \<open>k\<close> at position
  \<open>k\<close>.
\<close>

record filesystem =
  time_step_dirs :: "int \<rightharpoonup> (nat \<times> parameter_set) list"
  runs_in :: "run_parent \<rightharpoonup> run list"

datatype warning =
    Combination_Not_Valid pyval
  | Max_Spinup_Years_Reached run_dir
  | Could_Not_Read_Parameters_File parameter_set_dir
  | Could_Not_Search run_parent
  | Could_Not_Read_Job_Options run_dir

datatype event =
    Warn warning
  | Job_Init job_dir job_request
  | Job_Start job_dir
  | Job_Make_Read_Only job_dir
  | Job_Wait_Until_Finished job_dir nat
  | Make_Read_Only_Recursively job_dir
  | Remove_Recursively run_parent

text \<open>
  \<open>self\<close> and the constants of \<^verbatim>\<open>model/constants.py\<close> (a file that is not part of the
  sources at hand, so its values are parameters). \<open>metos3d\<close> stands for the external
  simulation: the last year and the last tolerance that the job started in a directory
  with a request reports. The loaders of \<^verbatim>\<open>ndop.model.data\<close> and the interpolator are
  external too: \<open>load_trajectories_to_index_array\<close> and \<open>interpolated_point_values\<close>
  give what they read for one tracer from the output of a trajectory job.
\<close>

record model =
  default_spinup_options :: "options option"
  parameters_lower_bound :: "real list"
  parameters_upper_bound :: "real list"
  job_setup_spinup :: options
  job_setup_derivative :: options
  job_setup_trajectory :: options
  MODEL_SPINUP_MAX_YEARS :: real
  MODEL_PARAMETERS_MAX_DIFF :: real
  MODEL_DERIVATIVE_SPINUP_YEARS :: real
  MODEL_START_FROM_CLOSEST_PARAMETER_SET :: bool
  METOS_TRACER_DIM :: nat
  metos3d :: "job_dir \<Rightarrow> job_request \<Rightarrow> real \<times> real"
  load_trajectories_to_index_array :: "job_request \<Rightarrow> nat \<Rightarrow> error + npfloat list"
  interpolated_point_values :: "job_request \<Rightarrow> nat \<Rightarrow> error + npfloat list"

definition wait_seconds_spinup :: nat where
  "wait_seconds_spinup = 120"

definition wait_seconds_derivative :: nat where
  "wait_seconds_derivative = 60"

definition wait_seconds_trajectory :: nat where
  "wait_seconds_trajectory = 10"

section \<open>Computations on the directory tree\<close>

text \<open>
  A method of \<open>Model\<close> takes the directory tree and gives its result or the exception it
  raises, the directory tree it leaves, and the events (warnings, calls of the job
  handle) in the order they happened. What was done before an exception stays done.
\<close>

type_synonym 'a prog = "filesystem \<Rightarrow> (error + 'a) \<times> filesystem \<times> event list"

definition ret :: "'a \<Rightarrow> 'a prog" where
  "ret x s = (Inr x, s, [])"

definition raise :: "error \<Rightarrow> 'a prog" where
  "raise e s = (Inl e, s, [])"

definition emit :: "event \<Rightarrow> unit prog" where
  "emit ev s = (Inr (), s, [ev])"

definition warn :: "warning \<Rightarrow> unit prog" where
  "warn w = emit (Warn w)"

definition bind :: "'a prog \<Rightarrow> ('a \<Rightarrow> 'b prog) \<Rightarrow> 'b prog" where
  "bind m f s =
     (case m s of
        (Inl e, s1, l1) \<Rightarrow> (Inl e, s1, l1)
      | (Inr x, s1, l1) \<Rightarrow> (case f x s1 of (r, s2, l2) \<Rightarrow> (r, s2, l1 @ l2)))"

text \<open>\<^verbatim>\<open>try: m except err: handler\<close>\<close>

definition try_except :: "error \<Rightarrow> 'a prog \<Rightarrow> 'a prog \<Rightarrow> 'a prog" where
  "try_except err m handler s =
     (case m s of
        (Inl e, s1, l1) \<Rightarrow>
          if e = err then (case handler s1 of (r, s2, l2) \<Rightarrow> (r, s2, l1 @ l2))
          else (Inl e, s1, l1)
      | (Inr x, s1, l1) \<Rightarrow> (Inr x, s1, l1))"

text \<open>Python's short-circuit \<^verbatim>\<open>a and b\<close>, \<^verbatim>\<open>a or b\<close> on truth values.\<close>

definition and_also :: "bool prog \<Rightarrow> bool prog \<Rightarrow> bool prog" where
  "and_also a b = bind a (\<lambda>x. if x then b else ret False)"

definition or_else :: "bool prog \<Rightarrow> bool prog \<Rightarrow> bool prog" where
  "or_else a b = bind a (\<lambda>x. if x then ret True else b)"

text \<open>A number compared with a value of an options dictionary: \<open>None\<close> or a string raises.\<close>

fun num_ge :: "real \<Rightarrow> pyval \<Rightarrow> bool prog" where
  "num_ge x (PNum y) = ret (y \<le> x)"
| "num_ge x v = raise TypeError"

fun num_le :: "real \<Rightarrow> pyval \<Rightarrow> bool prog" where
  "num_le x (PNum y) = ret (x \<le> y)"
| "num_le x v = raise TypeError"

fun num_gt :: "real \<Rightarrow> pyval \<Rightarrow> bool prog" where
  "num_gt x (PNum y) = ret (y < x)"
| "num_gt x v = raise TypeError"

lemma bind_cong [fundef_cong]:
  assumes "m = m'" and "s = s'"
    and "\<And>x s1 l1. m' s' = (Inr x, s1, l1) \<Longrightarrow> f x s1 = f' x s1"
  shows "bind m f s = bind m' f' s'"
  using assms by (auto simp: bind_def split: prod.splits sum.splits)

lemma bind_ret [simp]: "bind (ret x) f = f x"
  by (rule ext) (simp add: bind_def ret_def)

lemma bind_raise [simp]: "bind (raise e) f = raise e"
  by (rule ext) (simp add: bind_def raise_def)

lemma bind_Inr:
  "m s = (Inr x, s1, l1) \<Longrightarrow> bind m f s = (case f x s1 of (r, s2, l2) \<Rightarrow> (r, s2, l1 @ l2))"
  by (simp add: bind_def)

lemma bind_Inl: "m s = (Inl e, s1, l1) \<Longrightarrow> bind m f s = (Inl e, s1, l1)"
  by (simp add: bind_def)

lemma bind_pure: "m s = (Inr x, s, []) \<Longrightarrow> bind m f s = f x s"
  by (simp add: bind_def split: prod.splits)

section \<open>Spinup options\<close>

text \<open>
  \<^verbatim>\<open>spinup_option\<close> ends with a call of itself on the default options. That call comes back
  to the same line when the default options are missing or carry no valid combination,
  so the recursion is bounded the way Python bounds it: \<open>spinup_option_depth n\<close> may use
  \<open>n\<close> stack frames and raises \<open>RecursionError\<close> when they are used up.
\<close>

definition recursion_limit :: nat where
  "recursion_limit = 1000"

fun spinup_option_depth :: "nat \<Rightarrow> model \<Rightarrow> string \<Rightarrow> options option \<Rightarrow> pyval prog" where
  "spinup_option_depth 0 M option spinup_options = raise RecursionError"
| "spinup_option_depth (Suc n) M option spinup_options =
     (case spinup_options of
        Some d \<Rightarrow>
          (let option_value = (case d option of Some v \<Rightarrow> v | None \<Rightarrow> PNone) in
           if option = ''combination'' then
             (if option_value \<in> {PStr ''and'', PStr ''or''} then ret option_value
              else bind (warn (Combination_Not_Valid option_value))
                     (\<lambda>_. spinup_option_depth n M option (default_spinup_options M)))
           else ret option_value)
      | None \<Rightarrow> spinup_option_depth n M option (default_spinup_options M))"

definition spinup_option :: "model \<Rightarrow> string \<Rightarrow> options option \<Rightarrow> pyval prog" where
  "spinup_option = spinup_option_depth recursion_limit"

definition all_spinup_options :: "model \<Rightarrow> options option \<Rightarrow> (pyval \<times> pyval \<times> pyval) prog" where
  "all_spinup_options M spinup_options =
     bind (spinup_option M ''years'' spinup_options) (\<lambda>years.
     bind (spinup_option M ''tolerance'' spinup_options) (\<lambda>tolerance.
     bind (spinup_option M ''combination'' spinup_options) (\<lambda>combination.
       ret (years, tolerance, combination))))"

section \<open>Runs and their properties\<close>

text \<open>
  Modelled from the spec: the Job Handle (\<^verbatim>\<open>ndop.model.job.Metos3D_Job\<close>, not among the
  sources). \<^verbatim>\<open>Metos3D_Job(run_dir, force_load=True)\<close> reads the job options of a run
  directory and fails with \<open>OSError\<close> when there are none to read; its accessors
  \<^verbatim>\<open>last_year\<close>, \<^verbatim>\<open>last_tolerance\<close>, \<^verbatim>\<open>time_step\<close> and \<^verbatim>\<open>tracer_input_path\<close> report what is stored.
\<close>

definition Metos3D_Job_load :: "run_dir \<Rightarrow> job prog" where
  "Metos3D_Job_load rd s =
     (case runs_in s (fst rd) of
        None \<Rightarrow> (Inl OSError, s, [])
      | Some rs \<Rightarrow>
          if snd rd < length rs then
            (case job_file (rs ! snd rd) of
               None \<Rightarrow> (Inl OSError, s, [])
             | Some j \<Rightarrow> (Inr j, s, []))
          else (Inl OSError, s, []))"

definition get_run_dirs :: "run_parent \<Rightarrow> run_dir list prog" where
  "get_run_dirs search_path s =
     (case runs_in s search_path of
        None \<Rightarrow> (Inr [], s, [Warn (Could_Not_Search search_path)])
      | Some rs \<Rightarrow> (Inr (map (\<lambda>k. (search_path, k)) [0..<length rs]), s, []))"

text \<open>
  The loop of \<^verbatim>\<open>get_last_run_dir\<close>; \<open>n\<close> is \<^verbatim>\<open>last_run_index + 1\<close>, and the loop is entered
  with \<^verbatim>\<open>last_run_dir\<close> being \<open>None\<close>.
\<close>

fun get_last_run_dir_while :: "run_dir list \<Rightarrow> nat \<Rightarrow> run_dir option prog" where
  "get_last_run_dir_while run_dirs 0 = ret None"
| "get_last_run_dir_while run_dirs (Suc last_run_index) =
     bind (try_except OSError
             (bind (Metos3D_Job_load (run_dirs ! last_run_index))
                (\<lambda>_. ret (Some (run_dirs ! last_run_index))))
             (bind (warn (Could_Not_Read_Job_Options (run_dirs ! last_run_index)))
                (\<lambda>_. ret None)))
       (\<lambda>last_run_dir.
          case last_run_dir of
            None \<Rightarrow> get_last_run_dir_while run_dirs last_run_index
          | Some rd \<Rightarrow> ret (Some rd))"

definition get_last_run_dir :: "run_parent \<Rightarrow> run_dir option prog" where
  "get_last_run_dir search_path =
     bind (get_run_dirs search_path) (\<lambda>run_dirs.
       get_last_run_dir_while run_dirs (length run_dirs))"

definition get_previous_run_dir :: "run_dir \<Rightarrow> run_dir option" where
  "get_previous_run_dir run_dir =
     (case run_dir of (spinup_dir, run_index) \<Rightarrow>
        if run_index > 0 then Some (spinup_dir, run_index - 1) else None)"

function get_total_years_while :: "run_dir option \<Rightarrow> real \<Rightarrow> real prog" where
  "get_total_years_while run_dir total_years s =
     (case run_dir of
        None \<Rightarrow> ret total_years s
      | Some rd \<Rightarrow>
          bind (Metos3D_Job_load rd) (\<lambda>job.
            get_total_years_while (get_previous_run_dir rd) (total_years + last_year job)) s)"
  by pat_completeness auto
termination
  by (relation "measure (\<lambda>(run_dir, total_years, s).
        case run_dir of None \<Rightarrow> 0 | Some rd \<Rightarrow> Suc (snd rd))")
     (auto simp: get_previous_run_dir_def split: if_splits)

declare get_total_years_while.simps [simp del]

definition get_total_years :: "run_dir option \<Rightarrow> real prog" where
  "get_total_years run_dir = get_total_years_while run_dir 0"

definition get_real_tolerance :: "run_dir \<Rightarrow> real prog" where
  "get_real_tolerance run_dir = bind (Metos3D_Job_load run_dir) (\<lambda>job. ret (last_tolerance job))"

definition get_time_step :: "run_dir \<Rightarrow> int prog" where
  "get_time_step run_dir =
     bind (Metos3D_Job_load run_dir) (\<lambda>job. ret (job_time_step (request job)))"

definition get_tracer_input_dir :: "run_dir \<Rightarrow> run_dir option prog" where
  "get_tracer_input_dir run_dir =
     bind (Metos3D_Job_load run_dir) (\<lambda>job. ret (job_tracer_input_path (request job)))"

definition is_run_matching_options :: "model \<Rightarrow> run_dir option \<Rightarrow> options option \<Rightarrow> bool prog" where
  "is_run_matching_options M run_dir spinup_options =
     bind (all_spinup_options M spinup_options) (\<lambda>(years, tolerance, combination).
       case run_dir of
         Some rd \<Rightarrow>
           bind (get_total_years (Some rd)) (\<lambda>run_years.
           bind (get_real_tolerance rd) (\<lambda>run_tolerance.
             if combination = PStr ''and'' then
               bind (or_else (and_also (num_ge run_years years) (num_le run_tolerance tolerance))
                       (ret (MODEL_SPINUP_MAX_YEARS M \<le> run_years)))
                 (\<lambda>is_matching.
                    bind (and_also (ret is_matching) (num_gt run_tolerance tolerance))
                      (\<lambda>warning.
                         if warning then
                           bind (warn (Max_Spinup_Years_Reached rd)) (\<lambda>_. ret is_matching)
                         else ret is_matching))
             else if combination = PStr ''or'' then
               or_else (num_ge run_years years) (num_le run_tolerance tolerance)
             else raise ValueError))
       | None \<Rightarrow> ret False)"

section \<open>Unfolding the lookup of spinup options\<close>

lemma recursion_limit_Suc: "recursion_limit = Suc 999"
  by (simp add: recursion_limit_def)

lemma spinup_option_Some:
  "spinup_option M option (Some d) =
     (let option_value = (case d option of Some v \<Rightarrow> v | None \<Rightarrow> PNone) in
      if option = ''combination'' then
        (if option_value \<in> {PStr ''and'', PStr ''or''} then ret option_value
         else bind (warn (Combination_Not_Valid option_value))
                (\<lambda>_. spinup_option_depth 999 M option (default_spinup_options M)))
      else ret option_value)"
  unfolding spinup_option_def recursion_limit_Suc spinup_option_depth.simps by simp

lemma spinup_option_depth_valid:
  assumes "dd ''combination'' = Some (PStr c)" and "c = ''and'' \<or> c = ''or''"
  shows "spinup_option_depth (Suc n) M ''combination'' (Some dd) = ret (PStr c)"
  using assms by auto

lemma spinup_option_other:
  "option \<noteq> ''combination'' \<Longrightarrow>
   spinup_option M option (Some d) = ret (case d option of Some v \<Rightarrow> v | None \<Rightarrow> PNone)"
  by (simp add: spinup_option_Some)

lemma spinup_option_combination_valid:
  "d ''combination'' = Some (PStr c) \<Longrightarrow> c = ''and'' \<or> c = ''or'' \<Longrightarrow>
   spinup_option M ''combination'' (Some d) = ret (PStr c)"
  by (auto simp add: spinup_option_Some)

lemma all_spinup_options_policy:
  assumes "d ''years'' = Some y" and "d ''tolerance'' = Some t"
    and "d ''combination'' = Some (PStr c)" and "c = ''and'' \<or> c = ''or''"
  shows "all_spinup_options M (Some d) = ret (y, t, PStr c)"
  using assms by (simp add: all_spinup_options_def spinup_option_other spinup_option_combination_valid)

text \<open>A lookup leaves the directory tree alone, and its answer does not depend on it.\<close>

definition empty_filesystem :: filesystem where
  "empty_filesystem = \<lparr>time_step_dirs = Map.empty, runs_in = Map.empty\<rparr>"

lemma spinup_option_depth_pure:
  "\<exists>r l. \<forall>s. spinup_option_depth n M option spinup_options s = (r, s, l)"
proof (induction n arbitrary: spinup_options option)
  case 0
  show ?case by (simp add: raise_def)
next
  case (Suc n)
  from Suc [of option "default_spinup_options M"] obtain r l
    where d: "\<And>s. spinup_option_depth n M option (default_spinup_options M) s = (r, s, l)"
    by blast
  from Suc [of "''combination''" "default_spinup_options M"] obtain r' l'
    where d': "\<And>s. spinup_option_depth n M ''combination'' (default_spinup_options M) s = (r', s, l')"
    by blast
  show ?case
    by (cases spinup_options) (auto simp: d d' ret_def bind_def warn_def emit_def Let_def)
qed

lemma spinup_option_depth_state:
  "spinup_option_depth n M option spinup_options s =
     (fst (spinup_option_depth n M option spinup_options empty_filesystem), s,
      snd (snd (spinup_option_depth n M option spinup_options empty_filesystem)))"
  using spinup_option_depth_pure [of n M option spinup_options] by auto

definition combination_of :: "model \<Rightarrow> options option \<Rightarrow> pyval option" where
  "combination_of M spinup_options =
     (case fst (spinup_option M ''combination'' spinup_options empty_filesystem) of
        Inr c \<Rightarrow> Some c | Inl e \<Rightarrow> None)"

lemma all_spinup_options_combination:
  "all_spinup_options M spinup_options s = (Inr (years, tolerance, combination), s1, l1) \<Longrightarrow>
   combination_of M spinup_options = Some combination"
proof -
  obtain r l where c: "\<And>s. spinup_option_depth recursion_limit M ''combination'' spinup_options s = (r, s, l)"
    using spinup_option_depth_pure [of recursion_limit M "''combination''" spinup_options] by blast
  assume "all_spinup_options M spinup_options s = (Inr (years, tolerance, combination), s1, l1)"
  then have "r = Inr combination"
    by (auto simp: all_spinup_options_def spinup_option_def bind_def ret_def c
        split: sum.splits prod.splits)
  then show ?thesis
    by (simp add: combination_of_def spinup_option_def c)
qed

lemma combination_of_or [simp]:
  "combination_of M (Some [''years'' \<mapsto> y, ''tolerance'' \<mapsto> t, ''combination'' \<mapsto> PStr ''or'']) = Some (PStr ''or'')"
  by (simp add: combination_of_def spinup_option_Some ret_def)

section \<open>Parameter sets\<close>

definition lift :: "error + 'a \<Rightarrow> 'a prog" where
  "lift r s = (r, s, [])"

text \<open>
  An operation of numpy on two one-dimensional arrays, element by element: the shapes
  must agree, but for an array with one element, which is used for every position.
\<close>

definition np_elementwise :: "('a \<Rightarrow> 'b \<Rightarrow> 'c) \<Rightarrow> 'a list \<Rightarrow> 'b list \<Rightarrow> error + 'c list" where
  "np_elementwise f xs ys =
     (if length xs = length ys then Inr (map2 f xs ys)
      else if length ys = 1 then Inr (map (\<lambda>x. f x (hd ys)) xs)
      else if length xs = 1 then Inr (map (\<lambda>y. f (hd xs) y) ys)
      else Inl ValueError)"

definition linalg_norm :: "real list \<Rightarrow> real" where
  "linalg_norm xs = sqrt (sum_list (map (\<lambda>x. x\<^sup>2) xs))"

definition check_if_parameters_in_bounds :: "model \<Rightarrow> real list \<Rightarrow> unit prog" where
  "check_if_parameters_in_bounds M parameters =
     bind (lift (np_elementwise (\<lambda>x y. x < y) parameters (parameters_lower_bound M))) (\<lambda>below.
       if list_ex (\<lambda>b. b) below then raise ValueError
       else
         bind (lift (np_elementwise (\<lambda>x y. x > y) parameters (parameters_upper_bound M))) (\<lambda>above.
           if list_ex (\<lambda>b. b) above then raise ValueError else ret ()))"

text \<open>\<^verbatim>\<open>np.loadtxt\<close> of the parameters file of a parameter set directory.\<close>

definition loadtxt_parameters :: "parameter_set_dir \<Rightarrow> real list prog" where
  "loadtxt_parameters parameter_set_dir s =
     (case time_step_dirs s (fst parameter_set_dir) of
        None \<Rightarrow> (Inl OSError, s, [])
      | Some dirs \<Rightarrow>
          (case map_of dirs (snd parameter_set_dir) of
             None \<Rightarrow> (Inl OSError, s, [])
           | Some ps \<Rightarrow>
               (case stored_parameters ps of
                  None \<Rightarrow> (Inl OSError, s, [])
                | Some (current_parameters, mode) \<Rightarrow> (Inr current_parameters, s, []))))"

definition get_parameters_diff :: "real list \<Rightarrow> parameter_set_dir \<Rightarrow> real prog" where
  "get_parameters_diff parameters parameter_set_dir =
     bind (loadtxt_parameters parameter_set_dir) (\<lambda>current_parameters.
     bind (lift (np_elementwise (\<lambda>x y. x - y) parameters current_parameters)) (\<lambda>difference.
       ret (linalg_norm difference)))"

definition get_time_step_dir :: "int \<Rightarrow> bool \<Rightarrow> int option prog" where
  "get_time_step_dir time_step create s =
     (if time_step_dirs s time_step \<noteq> None then (Inr (Some time_step), s, [])
      else if create then
        (Inr (Some time_step), s\<lparr>time_step_dirs := (time_step_dirs s)(time_step \<mapsto> [])\<rparr>, [])
      else (Inr None, s, []))"

text \<open>\<^verbatim>\<open>util.io.get_dirs(time_step_dir)\<close>\<close>

definition get_dirs :: "int \<Rightarrow> parameter_set_dir list prog" where
  "get_dirs time_step_dir s =
     (case time_step_dirs s time_step_dir of
        None \<Rightarrow> (Inl OSError, s, [])
      | Some dirs \<Rightarrow> (Inr (map (\<lambda>(number, ps). (time_step_dir, number)) dirs), s, []))"

text \<open>The order \<^verbatim>\<open><\<close> of Python floats: nothing is below or above not-a-number.\<close>

fun fless :: "npfloat \<Rightarrow> npfloat \<Rightarrow> bool" where
  "fless (Fin x) (Fin y) = (x < y)"
| "fless (Fin x) PosInf = True"
| "fless NegInf (Fin y) = True"
| "fless NegInf PosInf = True"
| "fless x y = False"

text \<open>
  The handler of the scan of \<^verbatim>\<open>get_closest_parameter_set_dir\<close> formats its warning with
  \<^verbatim>\<open>current_parameters_file\<close>. The method binds no such name (it binds
  \<^verbatim>\<open>current_parameter_set_dir\<close> and \<^verbatim>\<open>current_parameters_diff\<close>) and neither does the module,
  so evaluating the name raises \<open>NameError\<close>.
\<close>

definition current_parameters_file :: "parameter_set_dir prog" where
  "current_parameters_file = raise NameError"

text \<open>
  The loop of \<^verbatim>\<open>get_closest_parameter_set_dir\<close>, over the directories not yet looked at
  (\<^verbatim>\<open>parameter_set_dirs[parameter_set_number:]\<close>).
\<close>

fun get_closest_parameter_set_dir_while ::
  "real list \<Rightarrow> bool \<Rightarrow> parameter_set_dir list \<Rightarrow> parameter_set_dir option \<Rightarrow> npfloat \<Rightarrow>
   parameter_set_dir option prog" where
  "get_closest_parameter_set_dir_while parameters no_spinup_okay []
     closest_parameter_set_dir closest_parameters_diff = ret closest_parameter_set_dir"
| "get_closest_parameter_set_dir_while parameters no_spinup_okay
     (current_parameter_set_dir # parameter_set_dirs)
     closest_parameter_set_dir closest_parameters_diff =
     (if fless (Fin 0) closest_parameters_diff then
        bind (try_except OSError
                (bind (get_parameters_diff parameters current_parameter_set_dir)
                   (\<lambda>diff. ret (Fin diff)))
                (bind current_parameters_file (\<lambda>file.
                 bind (warn (Could_Not_Read_Parameters_File file)) (\<lambda>_. ret PosInf))))
          (\<lambda>current_parameters_diff.
             bind (if fless current_parameters_diff closest_parameters_diff then
                     bind (if \<not> no_spinup_okay then
                             bind (get_last_run_dir (Spinup_Dir current_parameter_set_dir))
                               (\<lambda>last_run_dir. ret (last_run_dir \<noteq> None))
                           else ret True)
                       (\<lambda>better.
                          if better then ret (Some current_parameter_set_dir, current_parameters_diff)
                          else ret (closest_parameter_set_dir, closest_parameters_diff))
                   else ret (closest_parameter_set_dir, closest_parameters_diff))
               (\<lambda>closest.
                  get_closest_parameter_set_dir_while parameters no_spinup_okay parameter_set_dirs
                    (fst closest) (snd closest)))
      else ret closest_parameter_set_dir)"

definition get_closest_parameter_set_dir ::
  "model \<Rightarrow> int \<Rightarrow> real list \<Rightarrow> bool \<Rightarrow> parameter_set_dir option prog" where
  "get_closest_parameter_set_dir M time_step parameters no_spinup_okay =
     bind (check_if_parameters_in_bounds M parameters) (\<lambda>_.
     bind (get_time_step_dir time_step False) (\<lambda>time_step_dir.
       case time_step_dir of
         Some dir \<Rightarrow>
           bind (get_dirs dir) (\<lambda>parameter_set_dirs.
             get_closest_parameter_set_dir_while parameters no_spinup_okay parameter_set_dirs
               None PosInf)
       | None \<Rightarrow> ret None))"

text \<open>
  The search for a free index in \<^verbatim>\<open>get_parameter_set_dir\<close>: the first number from
  \<open>free_parameter_set_dir_number\<close> on that names no existing directory.
\<close>

function search_free_index :: "nat list \<Rightarrow> nat \<Rightarrow> nat" where
  "search_free_index existing free_parameter_set_dir_number =
     (if free_parameter_set_dir_number \<in> set existing
      then search_free_index existing (Suc free_parameter_set_dir_number)
      else free_parameter_set_dir_number)"
  by pat_completeness auto
termination
  by (relation "measure (\<lambda>(existing, n). Suc (Max (insert 0 (set existing))) - n)")
     (auto simp: less_Suc_eq_le Suc_diff_le)

declare search_free_index.simps [simp del]

text \<open>
  \<^verbatim>\<open>os.makedirs(parameter_set_dir)\<close>, \<^verbatim>\<open>np.savetxt(parameters_file, parameters)\<close> and
  \<^verbatim>\<open>os.chmod(parameters_file, stat.S_IRUSR)\<close>. A new directory is listed last.
\<close>

definition makedirs_parameter_set :: "parameter_set_dir \<Rightarrow> unit prog" where
  "makedirs_parameter_set parameter_set_dir s =
     (case time_step_dirs s (fst parameter_set_dir) of
        None \<Rightarrow> (Inl OSError, s, [])
      | Some dirs \<Rightarrow>
          (Inr (), s\<lparr>time_step_dirs := (time_step_dirs s)(fst parameter_set_dir \<mapsto>
                       dirs @ [(snd parameter_set_dir, \<lparr>stored_parameters = None\<rparr>)])\<rparr>, []))"

definition write_parameters_file ::
  "parameter_set_dir \<Rightarrow> (real list \<times> file_mode) option \<Rightarrow> unit prog" where
  "write_parameters_file parameter_set_dir content s =
     (case time_step_dirs s (fst parameter_set_dir) of
        None \<Rightarrow> (Inl OSError, s, [])
      | Some dirs \<Rightarrow>
          (Inr (), s\<lparr>time_step_dirs := (time_step_dirs s)(fst parameter_set_dir \<mapsto>
                       map (\<lambda>(number, ps). if number = snd parameter_set_dir
                                            then (number, ps\<lparr>stored_parameters := content\<rparr>)
                                            else (number, ps)) dirs)\<rparr>, []))"

definition savetxt_parameters :: "parameter_set_dir \<Rightarrow> real list \<Rightarrow> unit prog" where
  "savetxt_parameters parameter_set_dir parameters =
     write_parameters_file parameter_set_dir (Some (parameters, Writable))"

definition chmod_parameters_read_only :: "parameter_set_dir \<Rightarrow> unit prog" where
  "chmod_parameters_read_only parameter_set_dir =
     bind (loadtxt_parameters parameter_set_dir) (\<lambda>parameters.
       write_parameters_file parameter_set_dir (Some (parameters, Read_Only)))"

definition get_parameter_set_dir ::
  "model \<Rightarrow> int \<Rightarrow> real list \<Rightarrow> bool \<Rightarrow> parameter_set_dir option prog" where
  "get_parameter_set_dir M time_step parameters create =
     bind (get_closest_parameter_set_dir M time_step parameters True) (\<lambda>parameter_set_dir.
     bind (case parameter_set_dir of
             Some dir \<Rightarrow>
               bind (get_parameters_diff parameters dir) (\<lambda>parameters_diff.
                 if parameters_diff > MODEL_PARAMETERS_MAX_DIFF M then ret None
                 else ret (Some dir))
           | None \<Rightarrow> ret None) (\<lambda>parameter_set_dir.
       case parameter_set_dir of
         None \<Rightarrow>
           if create then
             bind (get_time_step_dir time_step True) (\<lambda>time_step_dir.
               case time_step_dir of
                 None \<Rightarrow> raise TypeError
               | Some dir \<Rightarrow>
                   bind (get_dirs dir) (\<lambda>existing.
                     let parameter_set_dir = (dir, search_free_index (map snd existing) 0) in
                     bind (makedirs_parameter_set parameter_set_dir) (\<lambda>_.
                     bind (savetxt_parameters parameter_set_dir parameters) (\<lambda>_.
                     bind (chmod_parameters_read_only parameter_set_dir) (\<lambda>_.
                       ret (Some parameter_set_dir))))))
           else ret None
       | Some dir \<Rightarrow> ret (Some dir)))"

section \<open>Creating and extending runs\<close>

text \<open>
  Modelled from the spec: the Job Handle's \<^verbatim>\<open>init\<close>, \<^verbatim>\<open>start\<close>, \<^verbatim>\<open>make_read_only\<close> and
  \<^verbatim>\<open>wait_until_finished\<close> (\<^verbatim>\<open>ndop.model.job.Metos3D_Job\<close>, not among the sources). \<open>init\<close>
  stores the job options in the job's directory, so that the directory can be loaded
  from then on; what the job will report is what the external simulation gives for the
  request. The other three act on the batch system and on file modes only, so they are
  events. A trajectory job runs in a temporary directory that is gone when
  \<^verbatim>\<open>_get_trajectory\<close> returns, so it leaves nothing in the directory tree.
\<close>

definition Metos3D_Job_init :: "model \<Rightarrow> job_dir \<Rightarrow> job_request \<Rightarrow> unit prog" where
  "Metos3D_Job_init M output_path req s =
     (case output_path of
        Trajectory_Dir input \<Rightarrow> (Inr (), s, [Job_Init output_path req])
      | Run_Dir rd \<Rightarrow>
          (case runs_in s (fst rd) of
             None \<Rightarrow> (Inl OSError, s, [])
           | Some rs \<Rightarrow>
               if snd rd < length rs then
                 (Inr (),
                  s\<lparr>runs_in := (runs_in s)(fst rd \<mapsto>
                       rs[snd rd := (rs ! snd rd)\<lparr>job_file :=
                            Some \<lparr>request = req,
                                  last_year = fst (metos3d M output_path req),
                                  last_tolerance = snd (metos3d M output_path req)\<rparr>\<rparr>])\<rparr>,
                  [Job_Init output_path req])
               else (Inl OSError, s, [])))"

definition Metos3D_Job_start :: "job_dir \<Rightarrow> unit prog" where
  "Metos3D_Job_start output_path = emit (Job_Start output_path)"

definition Metos3D_Job_make_read_only :: "job_dir \<Rightarrow> unit prog" where
  "Metos3D_Job_make_read_only output_path = emit (Job_Make_Read_Only output_path)"

definition Metos3D_Job_wait_until_finished :: "job_dir \<Rightarrow> nat \<Rightarrow> unit prog" where
  "Metos3D_Job_wait_until_finished output_path wait_seconds =
     emit (Job_Wait_Until_Finished output_path wait_seconds)"

definition Metos3D_Job_force_load :: "job_dir \<Rightarrow> unit prog" where
  "Metos3D_Job_force_load output_path =
     (case output_path of
        Run_Dir rd \<Rightarrow> bind (Metos3D_Job_load rd) (\<lambda>job. ret ())
      | Trajectory_Dir input \<Rightarrow> ret ())"

text \<open>\<^verbatim>\<open>util.io.make_read_only_recursively(run_dir, exclude_dir=True)\<close>\<close>

definition make_read_only_recursively :: "job_dir \<Rightarrow> unit prog" where
  "make_read_only_recursively run_dir = emit (Make_Read_Only_Recursively run_dir)"

text \<open>
  \<^verbatim>\<open>wait_seconds\<close> is a number of seconds or \<^verbatim>\<open>False\<close>; \<^verbatim>\<open>False\<close> is the number \<open>0\<close>, and
  \<^verbatim>\<open>if wait_seconds\<close> asks whether it is another number.
\<close>

definition wait_until_job_finished :: "job_dir \<Rightarrow> bool \<Rightarrow> nat \<Rightarrow> unit prog" where
  "wait_until_job_finished run_dir make_read_only wait_seconds =
     (if wait_seconds \<noteq> 0 then
        bind (Metos3D_Job_force_load run_dir) (\<lambda>_.
        bind (if make_read_only then Metos3D_Job_make_read_only run_dir else ret ()) (\<lambda>_.
        bind (Metos3D_Job_wait_until_finished run_dir wait_seconds) (\<lambda>_.
          if make_read_only then make_read_only_recursively run_dir else ret ())))
      else ret ())"

definition run_job ::
  "model \<Rightarrow> real list \<Rightarrow> job_dir \<Rightarrow> real \<Rightarrow> real \<Rightarrow> int \<Rightarrow> options \<Rightarrow> bool \<Rightarrow> run_dir option \<Rightarrow>
   nat \<Rightarrow> bool \<Rightarrow> unit prog" where
  "run_job M model_parameters output_path years tolerance time_step job_setup write_trajectory
     tracer_input_path wait_seconds make_read_only =
     (if \<not> years \<ge> 0 then raise AssertionError
      else if \<not> tolerance \<ge> 0 then raise AssertionError
      else if \<not> time_step \<ge> 1 then raise AssertionError
      else
        bind (check_if_parameters_in_bounds M model_parameters) (\<lambda>_.
        bind (Metos3D_Job_init M output_path
                \<lparr>job_parameters = model_parameters, job_years = years,
                 job_tolerance = tolerance, job_time_step = time_step,
                 job_write_trajectory = write_trajectory,
                 job_tracer_input_path = tracer_input_path,
                 job_setup_options = job_setup\<rparr>) (\<lambda>_.
        bind (Metos3D_Job_start output_path) (\<lambda>_.
        bind (if make_read_only then Metos3D_Job_make_read_only output_path else ret ()) (\<lambda>_.
          wait_until_job_finished output_path make_read_only wait_seconds)))))"

text \<open>
  \<^verbatim>\<open>util.io.makedirs_if_not_exists(output_path)\<close>, \<^verbatim>\<open>os.makedirs(run_dir)\<close> for the next
  run index, and \<^verbatim>\<open>np.savetxt\<close> of the run options, which raises \<open>TypeError\<close> for an entry
  that is no number.
\<close>

definition makedirs_if_not_exists :: "run_parent \<Rightarrow> unit prog" where
  "makedirs_if_not_exists output_path s =
     (if runs_in s output_path = None
      then (Inr (), s\<lparr>runs_in := (runs_in s)(output_path \<mapsto> [])\<rparr>, [])
      else (Inr (), s, []))"

definition makedirs_run :: "run_dir \<Rightarrow> unit prog" where
  "makedirs_run run_dir s =
     (case runs_in s (fst run_dir) of
        None \<Rightarrow> (Inl OSError, s, [])
      | Some rs \<Rightarrow>
          if snd run_dir = length rs then
            (Inr (), s\<lparr>runs_in := (runs_in s)(fst run_dir \<mapsto>
                         rs @ [\<lparr>run_options_file = None, job_file = None\<rparr>])\<rparr>, [])
          else (Inl OSError, s, []))"

definition savetxt_run_options :: "run_dir \<Rightarrow> pyval \<Rightarrow> pyval \<Rightarrow> int \<Rightarrow> unit prog" where
  "savetxt_run_options run_dir years tolerance time_step s =
     (case (years, tolerance) of
        (PNum y, PNum t) \<Rightarrow>
          (case runs_in s (fst run_dir) of
             None \<Rightarrow> (Inl OSError, s, [])
           | Some rs \<Rightarrow>
               if snd run_dir < length rs then
                 (Inr (), s\<lparr>runs_in := (runs_in s)(fst run_dir \<mapsto>
                              rs[snd run_dir := (rs ! snd run_dir)\<lparr>run_options_file :=
                                   Some (y, t, time_step)\<rparr>])\<rparr>, [])
               else (Inl OSError, s, []))
      | _ \<Rightarrow> (Inl TypeError, s, []))"

definition number :: "pyval \<Rightarrow> real prog" where
  "number v = (case v of PNum x \<Rightarrow> ret x | _ \<Rightarrow> raise TypeError)"

definition make_run ::
  "model \<Rightarrow> run_parent \<Rightarrow> real list \<Rightarrow> pyval \<Rightarrow> pyval \<Rightarrow> int \<Rightarrow> options \<Rightarrow> run_dir option \<Rightarrow>
   nat \<Rightarrow> run_dir prog" where
  "make_run M output_path parameters years tolerance time_step job_setup tracer_input_path
     wait_seconds =
     bind (check_if_parameters_in_bounds M parameters) (\<lambda>_.
     bind (makedirs_if_not_exists output_path) (\<lambda>_.
     bind (get_run_dirs output_path) (\<lambda>run_dirs.
       let next_run_index = length run_dirs;
           run_dir = (output_path, next_run_index)
       in
       bind (makedirs_run run_dir) (\<lambda>_.
       bind (savetxt_run_options run_dir years tolerance time_step) (\<lambda>_.
       bind (if tracer_input_path \<noteq> None \<and> Some output_path = map_option fst tracer_input_path
             then get_total_years tracer_input_path else ret 0) (\<lambda>last_years.
       bind (number years) (\<lambda>years.
       bind (number tolerance) (\<lambda>tolerance.
       bind (run_job M parameters (Run_Dir run_dir) (years - last_years) tolerance time_step
               job_setup False tracer_input_path wait_seconds True) (\<lambda>_.
         ret run_dir)))))))))"

text \<open>
  \<^verbatim>\<open>is_run_matching_options\<close> answers \<open>False\<close> for \<open>None\<close>, so a run directory that matched
  is a directory; \<open>known\<close> reads it.
\<close>

definition known :: "'a option \<Rightarrow> 'a prog" where
  "known x = (case x of Some y \<Rightarrow> ret y | None \<Rightarrow> raise TypeError)"

section \<open>The spinup run of a parameter set\<close>

text \<open>
  \<^verbatim>\<open>get_spinup_run_dir\<close> calls itself twice for the combination \<open>and\<close>, each time with
  the combination \<open>or\<close>; the second call starts from the directory tree that the first
  one leaves.
\<close>

function get_spinup_run_dir ::
  "model \<Rightarrow> parameter_set_dir \<Rightarrow> options option \<Rightarrow> bool \<Rightarrow> run_dir prog" where
  "get_spinup_run_dir M parameter_set_dir spinup_options start_from_closest_parameters s =
     bind (get_last_run_dir (Spinup_Dir parameter_set_dir)) (\<lambda>last_run_dir.
     bind (is_run_matching_options M last_run_dir spinup_options) (\<lambda>matching s.
       if matching then known last_run_dir s
       else
         bind (loadtxt_parameters parameter_set_dir) (\<lambda>parameters.
         bind (if last_run_dir = None \<and> start_from_closest_parameters then
                 bind (get_closest_parameter_set_dir M (fst parameter_set_dir) parameters False)
                   (\<lambda>closest_parameter_set_dir.
                      case closest_parameter_set_dir of
                        None \<Rightarrow> raise TypeError
                      | Some dir \<Rightarrow> get_last_run_dir (Spinup_Dir dir))
               else ret last_run_dir) (\<lambda>last_run_dir.
         bind (case last_run_dir of
                 Some rd \<Rightarrow> wait_until_job_finished (Run_Dir rd) True wait_seconds_spinup
               | None \<Rightarrow> ret ()) (\<lambda>_.
         bind (all_spinup_options M spinup_options) (\<lambda>(years, tolerance, combination) s.
           if combination = PStr ''or'' then
             make_run M (Spinup_Dir parameter_set_dir) parameters years tolerance
               (fst parameter_set_dir) (job_setup_spinup M) last_run_dir wait_seconds_spinup s
           else if combination = PStr ''and'' then
             (case get_spinup_run_dir M parameter_set_dir
                     (Some [''years'' \<mapsto> years, ''tolerance'' \<mapsto> PNum 0,
                            ''combination'' \<mapsto> PStr ''or''])
                     start_from_closest_parameters s of
                (Inl e, s1, l1) \<Rightarrow> (Inl e, s1, l1)
              | (Inr run_dir, s1, l1) \<Rightarrow>
                  (case get_spinup_run_dir M parameter_set_dir
                          (Some [''years'' \<mapsto> PNum (MODEL_SPINUP_MAX_YEARS M),
                                 ''tolerance'' \<mapsto> tolerance, ''combination'' \<mapsto> PStr ''or''])
                          start_from_closest_parameters s1 of
                     (r, s2, l2) \<Rightarrow> (r, s2, l1 @ l2)))
           else raise UnboundLocalError s)))) s)) s"
  by pat_completeness auto
termination
  apply (relation "measure (\<lambda>(M, parameter_set_dir, spinup_options, start, s).
        if combination_of M spinup_options = Some (PStr ''and'') then 1 else 0)")
    apply (auto dest!: all_spinup_options_combination)
  done

declare get_spinup_run_dir.simps [simp del]

section \<open>Trajectories\<close>

fun isnan :: "npfloat \<Rightarrow> bool" where
  "isnan NaN = True"
| "isnan x = False"

text \<open>\<^verbatim>\<open>for x in xs: acc = body(x, acc)\<close>, and a loop that collects one value per element.\<close>

fun for_each :: "'a list \<Rightarrow> ('a \<Rightarrow> 'b \<Rightarrow> 'b prog) \<Rightarrow> 'b \<Rightarrow> 'b prog" where
  "for_each [] body acc = ret acc"
| "for_each (x # xs) body acc = bind (body x acc) (for_each xs body)"

definition collect :: "'a list \<Rightarrow> ('a \<Rightarrow> 'b prog) \<Rightarrow> 'b list prog" where
  "collect xs body = for_each xs (\<lambda>x acc. bind (body x) (\<lambda>y. ret (acc @ [y]))) []"

type_synonym load_trajectory_function = "job_request \<Rightarrow> nat \<Rightarrow> npfloat list prog"

definition priv_get_load_trajectory_function_for_all :: "model \<Rightarrow> load_trajectory_function" where
  "priv_get_load_trajectory_function_for_all M =
     (\<lambda>trajectory_job tracer_index.
        lift (load_trajectories_to_index_array M trajectory_job tracer_index))"

text \<open>\<^verbatim>\<open>_interpolate\<close>, after the interpolator has given its values.\<close>

definition priv_interpolate :: "npfloat list \<Rightarrow> npfloat list prog" where
  "priv_interpolate interpolated_values =
     (if list_ex isnan interpolated_values then raise AssertionError
      else ret interpolated_values)"

definition priv_get_load_trajectory_function_for_points :: "model \<Rightarrow> load_trajectory_function" where
  "priv_get_load_trajectory_function_for_points M =
     (\<lambda>trajectory_job tracer_index.
        bind (lift (interpolated_point_values M trajectory_job tracer_index)) priv_interpolate)"

definition priv_get_trajectory ::
  "model \<Rightarrow> load_trajectory_function \<Rightarrow> run_dir \<Rightarrow> real list \<Rightarrow> npfloat list list prog" where
  "priv_get_trajectory M load_trajectory_function run_dir parameters =
     bind (get_time_step run_dir) (\<lambda>run_time_step.
     bind (run_job M parameters (Trajectory_Dir run_dir) 1 0 run_time_step
             (job_setup_trajectory M) True (Some run_dir) wait_seconds_trajectory False) (\<lambda>_.
     bind (collect [0..<METOS_TRACER_DIM M] (\<lambda>tracer_index.
             load_trajectory_function
               \<lparr>job_parameters = parameters, job_years = 1, job_tolerance = 0,
                job_time_step = run_time_step, job_write_trajectory = True,
                job_tracer_input_path = Some run_dir,
                job_setup_options = job_setup_trajectory M\<rparr> tracer_index))
       (\<lambda>trajectory_values.
          if length trajectory_values \<noteq> METOS_TRACER_DIM M then raise AssertionError
          else ret trajectory_values)))"

definition priv_f ::
  "model \<Rightarrow> load_trajectory_function \<Rightarrow> real list \<Rightarrow> options option \<Rightarrow> int \<Rightarrow>
   npfloat list list prog" where
  "priv_f M load_trajectory_function parameters spinup_options time_step =
     bind (get_parameter_set_dir M time_step parameters True) (\<lambda>parameter_set_dir.
     bind (known parameter_set_dir) (\<lambda>parameter_set_dir.
     bind (get_spinup_run_dir M parameter_set_dir spinup_options
             (MODEL_START_FROM_CLOSEST_PARAMETER_SET M)) (\<lambda>spinup_run_dir.
       priv_get_trajectory M load_trajectory_function spinup_run_dir parameters)))"

section \<open>The finite difference derivative\<close>

text \<open>Arithmetic of numpy on values that may be infinite or not a number.\<close>

fun fneg :: "npfloat \<Rightarrow> npfloat" where
  "fneg (Fin x) = Fin (- x)"
| "fneg PosInf = NegInf"
| "fneg NegInf = PosInf"
| "fneg NaN = NaN"

fun fadd :: "npfloat \<Rightarrow> npfloat \<Rightarrow> npfloat" where
  "fadd NaN y = NaN"
| "fadd x NaN = NaN"
| "fadd (Fin x) (Fin y) = Fin (x + y)"
| "fadd PosInf NegInf = NaN"
| "fadd NegInf PosInf = NaN"
| "fadd PosInf y = PosInf"
| "fadd x PosInf = PosInf"
| "fadd NegInf y = NegInf"
| "fadd x NegInf = NegInf"

definition fsub :: "npfloat \<Rightarrow> npfloat \<Rightarrow> npfloat" where
  "fsub x y = fadd x (fneg y)"

text \<open>\<^verbatim>\<open>(-1)**h_factor_index * x\<close>\<close>

definition fsigned :: "nat \<Rightarrow> npfloat \<Rightarrow> npfloat" where
  "fsigned h_factor_index x = (if even h_factor_index then x else fneg x)"

text \<open>
  Division by a step size. A step size of zero is the positive zero here (a difference
  of equal numbers, or a sum of absolute values), and numpy divides by it without an
  exception.
\<close>

fun fdiv :: "npfloat \<Rightarrow> real \<Rightarrow> npfloat" where
  "fdiv NaN d = NaN"
| "fdiv (Fin x) d =
     (if d = 0 then (if x = 0 then NaN else if x > 0 then PosInf else NegInf)
      else Fin (x / d))"
| "fdiv PosInf d = (if d \<ge> 0 then PosInf else NegInf)"
| "fdiv NegInf d = (if d \<ge> 0 then NegInf else PosInf)"

text \<open>An operation in place, \<^verbatim>\<open>a += b\<close>: \<open>b\<close> must have the shape of \<open>a\<close> or one element.\<close>

definition np_inplace ::
  "(npfloat \<Rightarrow> 'b \<Rightarrow> npfloat) \<Rightarrow> npfloat list \<Rightarrow> 'b list \<Rightarrow> npfloat list prog" where
  "np_inplace f xs ys =
     (if length xs = length ys then ret (map2 f xs ys)
      else if length ys = 1 then ret (map (\<lambda>x. f x (hd ys)) xs)
      else raise ValueError)"

definition index :: "'a list \<Rightarrow> nat \<Rightarrow> 'a prog" where
  "index xs i = (if i < length xs then ret (xs ! i) else raise IndexError)"

text \<open>\<^verbatim>\<open>eta = 10**(-7)\<close>\<close>

definition eta :: real where
  "eta = 1 / 10 ^ 7"

text \<open>
  The step of one parameter and one factor (the body of the two loops of \<^verbatim>\<open>_df\<close> down to
  the line \<^verbatim>\<open>## calculate h\<close>): the perturbed parameters and the step \<open>h\<close> that is recorded.
\<close>

definition df_h_i :: "real list \<Rightarrow> nat \<Rightarrow> real prog" where
  "df_h_i parameters parameter_index =
     bind (index parameters parameter_index) (\<lambda>p. ret (max \<bar>p\<bar> (1 / 10) * eta))"

definition df_parameters_der ::
  "model \<Rightarrow> nat \<Rightarrow> real list \<Rightarrow> nat \<Rightarrow> real \<Rightarrow> int \<Rightarrow> (real list \<times> real) prog" where
  "df_parameters_der M accuracy_order parameters parameter_index h_i h_factor =
     bind (index parameters parameter_index) (\<lambda>p.
       let h = real_of_int h_factor * h_i;
           parameters_der_i = p + h
       in
       bind (index (parameters_lower_bound M) parameter_index) (\<lambda>lower_bound.
       bind (index (parameters_upper_bound M) parameter_index) (\<lambda>upper_bound.
         let violates_lower_bound = parameters_der_i < lower_bound;
             violates_upper_bound = parameters_der_i > upper_bound;
             parameters_der_i =
               (if accuracy_order = 1 then
                  (if violates_lower_bound \<or> violates_upper_bound then p + h * (- 1)
                   else parameters_der_i)
                else
                  (if violates_lower_bound then lower_bound
                   else if violates_upper_bound then upper_bound
                   else parameters_der_i));
             h = parameters_der_i - p
         in ret (parameters[parameter_index := parameters_der_i], h))))"

text \<open>\<^verbatim>\<open>util.io.remove_recursively(partial_derivative_dir, force=True, exclude_dir=True)\<close>\<close>

definition remove_recursively :: "run_parent \<Rightarrow> unit prog" where
  "remove_recursively dir s =
     (if runs_in s dir = None then (Inr (), s, [Remove_Recursively dir])
      else (Inr (), s\<lparr>runs_in := (runs_in s)(dir \<mapsto> [])\<rparr>, [Remove_Recursively dir]))"

text \<open>
  \<open>Model\<close> has no method \<^verbatim>\<open>best_nodes_setup\<close> (the only other mention of the name is in a
  comment of \<^verbatim>\<open>run_job\<close>), so looking it up on \<open>self\<close> raises \<open>AttributeError\<close>.
\<close>

definition best_nodes_setup :: "pyval \<Rightarrow> pyval \<Rightarrow> pyval prog" where
  "best_nodes_setup years nodes_max = raise AttributeError"

definition getitem :: "options \<Rightarrow> string \<Rightarrow> pyval prog" where
  "getitem d key = (case d key of Some v \<Rightarrow> ret v | None \<Rightarrow> raise KeyError)"

definition sgn_int :: "real \<Rightarrow> int" where
  "sgn_int h = (if h > 0 then 1 else if h < 0 then - 1 else 0)"

text \<open>
  The block \<^verbatim>\<open>## start derivative runs\<close> of \<^verbatim>\<open>_df\<close>. The state of the loops is the array
  \<open>h\<close>, the array \<open>partial_derivative_run_dirs\<close> and the job setup.
\<close>

type_synonym df_arrays = "(nat \<times> nat \<Rightarrow> real) \<times> (nat \<times> nat \<Rightarrow> run_dir option) \<times> options"

definition priv_df_start_run ::
  "model \<Rightarrow> nat \<Rightarrow> real list \<Rightarrow> int \<Rightarrow> parameter_set_dir \<Rightarrow> run_dir option \<Rightarrow> pyval \<Rightarrow> int list \<Rightarrow>
   nat \<Rightarrow> real \<Rightarrow> nat \<Rightarrow> df_arrays \<Rightarrow> df_arrays prog" where
  "priv_df_start_run M accuracy_order parameters time_step parameter_set_dir spinup_run_dir years
     h_factors parameter_index h_i h_factor_index arrays =
     (case arrays of (h, partial_derivative_run_dirs, job_setup) \<Rightarrow>
        bind (index h_factors h_factor_index) (\<lambda>factor.
        bind (df_parameters_der M accuracy_order parameters parameter_index h_i factor)
          (\<lambda>(parameters_der, h_value).
             let h = h((parameter_index, h_factor_index) := h_value);
                 h_factor = sgn_int h_value;
                 partial_derivative_dir =
                   Partial_Derivative_Dir parameter_set_dir parameter_index h_factor
             in
             bind (get_last_run_dir partial_derivative_dir) (\<lambda>partial_derivative_run_dir.
             bind (is_run_matching_options M partial_derivative_run_dir
                     (Some [''years'' \<mapsto> PNum (MODEL_DERIVATIVE_SPINUP_YEARS M),
                            ''tolerance'' \<mapsto> PNum 0, ''combination'' \<mapsto> PStr ''or'']))
               (\<lambda>matching.
                  bind (if \<not> matching then
                          bind (remove_recursively partial_derivative_dir) (\<lambda>_.
                          bind (getitem job_setup ''nodes_setup'') (\<lambda>nodes_setup.
                          bind (if nodes_setup = PNone then
                                  bind (try_except KeyError (getitem job_setup ''nodes_max'')
                                          (ret PNone)) (\<lambda>nodes_max.
                                  bind (best_nodes_setup years nodes_max) (\<lambda>best.
                                    ret (job_setup(''nodes_setup'' \<mapsto> best))))
                                else ret job_setup) (\<lambda>job_setup.
                          bind (make_run M partial_derivative_dir parameters_der
                                  (PNum (MODEL_DERIVATIVE_SPINUP_YEARS M)) (PNum 0) time_step
                                  job_setup spinup_run_dir 0) (\<lambda>run_dir.
                            ret (Some run_dir, job_setup)))))
                        else ret (partial_derivative_run_dir, job_setup))
                    (\<lambda>(partial_derivative_run_dir, job_setup).
                       ret (h,
                            partial_derivative_run_dirs((parameter_index, h_factor_index) :=
                              partial_derivative_run_dir),
                            job_setup)))))))"

definition priv_df_start_runs ::
  "model \<Rightarrow> nat \<Rightarrow> real list \<Rightarrow> int \<Rightarrow> parameter_set_dir \<Rightarrow> run_dir option \<Rightarrow> pyval \<Rightarrow> int list \<Rightarrow>
   df_arrays prog" where
  "priv_df_start_runs M accuracy_order parameters time_step parameter_set_dir spinup_run_dir years
     h_factors =
     for_each [0..<length parameters] (\<lambda>parameter_index arrays.
       bind (df_h_i parameters parameter_index) (\<lambda>h_i.
         for_each [0..<length h_factors]
           (priv_df_start_run M accuracy_order parameters time_step parameter_set_dir
              spinup_run_dir years h_factors parameter_index h_i) arrays))
       (\<lambda>_. 0, \<lambda>_. None, job_setup_derivative M)"

text \<open>
  The block \<^verbatim>\<open>## make trajectories and calculate df\<close>. \<open>df\<close> has one entry for each tracer,
  \<open>None\<close> until the first trajectory is there, then one row for each parameter.
\<close>

type_synonym df_tensor = "npfloat list list option list"

definition df_add_trajectory ::
  "nat \<Rightarrow> nat \<Rightarrow> nat \<Rightarrow> npfloat list list \<Rightarrow> nat \<Rightarrow> df_tensor \<Rightarrow> df_tensor prog" where
  "df_add_trajectory parameters_len parameter_index h_factor_index trajectory tracer_index df =
     bind (index df tracer_index) (\<lambda>df_tracer.
     bind (index trajectory tracer_index) (\<lambda>trajectory_tracer.
       let df_tracer =
             (case df_tracer of
                None \<Rightarrow> replicate parameters_len (replicate (length trajectory_tracer) (Fin 0))
              | Some rows \<Rightarrow> rows)
       in
       bind (index df_tracer parameter_index) (\<lambda>row.
       bind (np_inplace fadd row (map (fsigned h_factor_index) trajectory_tracer)) (\<lambda>row.
         ret (df[tracer_index := Some (df_tracer[parameter_index := row])])))))"

definition df_divide ::
  "nat \<Rightarrow> nat \<Rightarrow> npfloat list list \<Rightarrow> (nat \<times> nat \<Rightarrow> real) \<Rightarrow> nat \<Rightarrow> nat \<Rightarrow> df_tensor \<Rightarrow>
   df_tensor prog" where
  "df_divide accuracy_order h_factors_len f h parameter_index tracer_index df =
     bind (index df tracer_index) (\<lambda>df_tracer.
     bind (case df_tracer of None \<Rightarrow> raise TypeError | Some rows \<Rightarrow> ret rows) (\<lambda>df_tracer.
     bind (index df_tracer parameter_index) (\<lambda>row.
     bind (if accuracy_order = 1 then
             bind (index f tracer_index) (\<lambda>f_tracer.
             bind (np_inplace fsub row f_tracer) (\<lambda>row.
               np_inplace fdiv row (map (\<lambda>k. h (parameter_index, k)) [0..<h_factors_len])))
           else
             ret (map (\<lambda>x. fdiv x (sum_list (map (\<lambda>k. \<bar>h (parameter_index, k)\<bar>)
                                        [0..<h_factors_len]))) row))
       (\<lambda>row. ret (df[tracer_index := Some (df_tracer[parameter_index := row])])))))"

definition priv_df_calculate ::
  "model \<Rightarrow> load_trajectory_function \<Rightarrow> nat \<Rightarrow> real list \<Rightarrow> nat \<Rightarrow> npfloat list list \<Rightarrow>
   (nat \<times> nat \<Rightarrow> real) \<Rightarrow> (nat \<times> nat \<Rightarrow> run_dir option) \<Rightarrow> df_tensor prog" where
  "priv_df_calculate M load_trajectory_function accuracy_order parameters h_factors_len f h
     partial_derivative_run_dirs =
     for_each [0..<length parameters] (\<lambda>parameter_index df.
       bind (for_each [0..<h_factors_len] (\<lambda>h_factor_index df.
               bind (known (partial_derivative_run_dirs (parameter_index, h_factor_index)))
                 (\<lambda>partial_derivative_run_dir.
               bind (wait_until_job_finished (Run_Dir partial_derivative_run_dir) True
                       wait_seconds_derivative) (\<lambda>_.
               bind (priv_get_trajectory M load_trajectory_function partial_derivative_run_dir
                       parameters) (\<lambda>trajectory.
                 for_each [0..<METOS_TRACER_DIM M]
                   (df_add_trajectory (length parameters) parameter_index h_factor_index
                      trajectory) df)))) df)
         (for_each [0..<METOS_TRACER_DIM M]
            (df_divide accuracy_order h_factors_len f h parameter_index)))
       (replicate (METOS_TRACER_DIM M) None)"

fun minus_years :: "pyval \<Rightarrow> real \<Rightarrow> pyval prog" where
  "minus_years (PNum years) y = ret (PNum (years - y))"
| "minus_years v y = raise TypeError"

definition priv_df ::
  "model \<Rightarrow> load_trajectory_function \<Rightarrow> real list \<Rightarrow> options option \<Rightarrow> int \<Rightarrow> nat \<Rightarrow>
   df_tensor prog" where
  "priv_df M load_trajectory_function parameters spinup_options time_step accuracy_order =
     bind (if accuracy_order = 1 then ret [1]
           else if accuracy_order = 2 then ret [1, - 1]
           else raise ValueError) (\<lambda>h_factors.
     bind (get_parameter_set_dir M time_step parameters True) (\<lambda>parameter_set_dir.
     bind (known parameter_set_dir) (\<lambda>parameter_set_dir.
     bind (all_spinup_options M spinup_options) (\<lambda>(years, tolerance, combination).
     bind (minus_years years (MODEL_DERIVATIVE_SPINUP_YEARS M)) (\<lambda>reduced_years.
     bind (get_spinup_run_dir M parameter_set_dir
             (Some [''years'' \<mapsto> reduced_years, ''tolerance'' \<mapsto> tolerance,
                    ''combination'' \<mapsto> combination])
             (MODEL_START_FROM_CLOSEST_PARAMETER_SET M)) (\<lambda>spinup_run_dir.
     bind (get_total_years (Some spinup_run_dir)) (\<lambda>spinup_run_years.
     bind (if accuracy_order = 1 then
             (let previous_spinup_run_dir = get_previous_run_dir spinup_run_dir in
              bind (get_total_years previous_spinup_run_dir) (\<lambda>previous_spinup_run_years.
                let (spinup_run_dir, spinup_run_years) =
                      (if previous_spinup_run_years =
                            spinup_run_years - MODEL_DERIVATIVE_SPINUP_YEARS M
                       then (previous_spinup_run_dir, previous_spinup_run_years)
                       else (Some spinup_run_dir, spinup_run_years))
                in
                bind (priv_f M load_trajectory_function parameters
                        (Some [''years'' \<mapsto> PNum (spinup_run_years +
                                                    MODEL_DERIVATIVE_SPINUP_YEARS M),
                               ''tolerance'' \<mapsto> PNum 0, ''combination'' \<mapsto> PStr ''or''])
                        time_step) (\<lambda>f. ret (spinup_run_dir, f))))
           else ret (Some spinup_run_dir, [])) (\<lambda>(spinup_run_dir, f).
     bind (priv_df_start_runs M accuracy_order parameters time_step parameter_set_dir
             spinup_run_dir years h_factors) (\<lambda>(h, partial_derivative_run_dirs, job_setup).
       priv_df_calculate M load_trajectory_function accuracy_order parameters (length h_factors)
         f h partial_derivative_run_dirs)))))))))"

text \<open>\<^verbatim>\<open>np.any(np.isnan(a))\<close> for an entry of \<open>df\<close>; \<open>None\<close> is no array.\<close>

definition any_isnan :: "npfloat list list option \<Rightarrow> bool prog" where
  "any_isnan a =
     (case a of None \<Rightarrow> raise TypeError | Some rows \<Rightarrow> ret (list_ex (list_ex isnan) rows))"

definition df_all ::
  "model \<Rightarrow> real list \<Rightarrow> options option \<Rightarrow> int \<Rightarrow> nat \<Rightarrow> df_tensor prog" where
  "df_all M parameters spinup_options time_step accuracy_order =
     bind (priv_df M (priv_get_load_trajectory_function_for_all M) parameters spinup_options
             time_step accuracy_order) (\<lambda>df.
       if length df \<noteq> 2 then raise AssertionError else ret df)"

definition df_points ::
  "model \<Rightarrow> real list \<Rightarrow> options option \<Rightarrow> int \<Rightarrow> nat \<Rightarrow> df_tensor prog" where
  "df_points M parameters spinup_options time_step accuracy_order =
     bind (priv_df M (priv_get_load_trajectory_function_for_points M) parameters spinup_options
             time_step accuracy_order) (\<lambda>df.
       if length df \<noteq> 2 then raise AssertionError
       else
         bind (and_also (bind (any_isnan (df ! 0)) (\<lambda>b. ret (\<not> b)))
                 (bind (any_isnan (df ! 1)) (\<lambda>b. ret (\<not> b)))) (\<lambda>no_nan.
           if \<not> no_nan then raise AssertionError else ret df))"

section \<open>Ancestors of a run\<close>

text \<open>
  The ancestors of a run, following the words of the specification: the runs reached by
  stepping from a run to its previous run again and again.
\<close>

function ancestor_run_dirs :: "run_dir \<Rightarrow> run_dir list" where
  "ancestor_run_dirs run_dir =
     (case get_previous_run_dir run_dir of
        None \<Rightarrow> []
      | Some previous_run_dir \<Rightarrow> previous_run_dir # ancestor_run_dirs previous_run_dir)"
  by pat_completeness auto
termination
  by (relation "measure snd") (auto simp: get_previous_run_dir_def split: if_splits prod.splits)

declare ancestor_run_dirs.simps [simp del]


text \<open>
  The years a run was requested for, following the words of the specification: the years
  of the request that the job of the run was started with (nothing, when there is no job
  to read), and their sum over a run and its ancestors.
\<close>

definition requested_years :: "filesystem \<Rightarrow> run_dir \<Rightarrow> real" where
  "requested_years s run_dir =
     (case runs_in s (fst run_dir) of
        None \<Rightarrow> 0
      | Some rs \<Rightarrow>
          (case job_file (rs ! snd run_dir) of
             None \<Rightarrow> 0
           | Some j \<Rightarrow> job_years (request j)))"

definition total_requested_years :: "filesystem \<Rightarrow> run_dir \<Rightarrow> real" where
  "total_requested_years s run_dir =
     requested_years s run_dir + sum_list (map (requested_years s) (ancestor_run_dirs run_dir))"
section \<open>A small model and directory tree for concrete evaluation\<close>

definition example_default_spinup_options :: options where
  "example_default_spinup_options =
     [''years'' \<mapsto> PNum 10000, ''tolerance'' \<mapsto> PNum 0, ''combination'' \<mapsto> PStr ''or'']"

definition example_model :: model where
  "example_model =
     \<lparr>default_spinup_options = Some example_default_spinup_options,
      parameters_lower_bound = [0, 0],
      parameters_upper_bound = [1, 10],
      job_setup_spinup = [''name'' \<mapsto> PStr ''''],
      job_setup_derivative = [''name'' \<mapsto> PStr '''', ''nodes_setup'' \<mapsto> PNum 1],
      job_setup_trajectory = [''name'' \<mapsto> PStr '''', ''nodes_setup'' \<mapsto> PNone],
      MODEL_SPINUP_MAX_YEARS = 50000,
      MODEL_PARAMETERS_MAX_DIFF = 1,
      MODEL_DERIVATIVE_SPINUP_YEARS = 50,
      MODEL_START_FROM_CLOSEST_PARAMETER_SET = False,
      METOS_TRACER_DIM = 2,
      metos3d = (\<lambda>d r. (job_years r, job_tolerance r)),
      load_trajectories_to_index_array = (\<lambda>r i. Inr [NaN]),
      interpolated_point_values = (\<lambda>r i. Inr [Fin 1])\<rparr>"

definition example_job :: "real \<Rightarrow> real \<Rightarrow> run_dir option \<Rightarrow> job" where
  "example_job y t input =
     \<lparr>request = \<lparr>job_parameters = [1, 2], job_years = y, job_tolerance = 0, job_time_step = 1,
                  job_write_trajectory = False, job_tracer_input_path = input,
                  job_setup_options = [''name'' \<mapsto> PStr '''']\<rparr>,
      last_year = y, last_tolerance = t\<rparr>"

definition example_spinup_dir :: run_parent where
  "example_spinup_dir = Spinup_Dir (1, 0)"

definition example_runs :: "run list" where
  "example_runs =
     [\<lparr>run_options_file = Some (3000, 0, 1), job_file = Some (example_job 3000 (4 / 10) None)\<rparr>,
      \<lparr>run_options_file = Some (5000, 0, 1),
        job_file = Some (example_job 2000 (2 / 10) (Some (example_spinup_dir, 0)))\<rparr>]"

definition example_filesystem :: filesystem where
  "example_filesystem =
     \<lparr>time_step_dirs = [1 \<mapsto> [(0, \<lparr>stored_parameters = Some ([1, 2], Read_Only)\<rparr>)]],
      runs_in = [example_spinup_dir \<mapsto> example_runs]\<rparr>"

definition unreadable_filesystem :: filesystem where
  "unreadable_filesystem =
     \<lparr>time_step_dirs = [1 \<mapsto> [(0, \<lparr>stored_parameters = None\<rparr>),
                                (1, \<lparr>stored_parameters = Some ([1, 2], Read_Only)\<rparr>)]],
      runs_in = Map.empty\<rparr>"


text \<open>
  A chain of one run that was asked for 10000 years up to a tolerance of a tenth, and
  whose job reached the tolerance in year 3000.
\<close>

definition early_stop_filesystem :: filesystem where
  "early_stop_filesystem =
     \<lparr>time_step_dirs = [1 \<mapsto> [(0, \<lparr>stored_parameters = Some ([1, 2], Read_Only)\<rparr>)]],
      runs_in = [example_spinup_dir \<mapsto>
        [\<lparr>run_options_file = Some (10000, 1 / 10, 1),
          job_file = Some
            \<lparr>request = \<lparr>job_parameters = [1, 2], job_years = 10000, job_tolerance = 1 / 10,
                         job_time_step = 1, job_write_trajectory = False,
                         job_tracer_input_path = None,
                         job_setup_options = [''name'' \<mapsto> PStr '''']\<rparr>,
             last_year = 3000, last_tolerance = 1 / 10\<rparr>\<rparr>]]\<rparr>"
section \<open>Facts about spinup options\<close>

text \<open>
  Claim C10. A lookup of \<open>combination\<close> in options whose value for it is neither \<open>and\<close> nor
  \<open>or\<close> (a missing key counts as \<open>None\<close>) raises nothing: it emits one warning about the
  value and returns the combination of the model's default spinup options. The default
  options are taken to carry a valid combination, as the constructor's own default does.
\<close>

theorem spinup_option_invalid_combination:
  assumes "default_spinup_options M = Some dd"
    and "dd ''combination'' = Some (PStr c)" and "c = ''and'' \<or> c = ''or''"
    and "v = (case d ''combination'' of Some x \<Rightarrow> x | None \<Rightarrow> PNone)"
    and "v \<noteq> PStr ''and''" and "v \<noteq> PStr ''or''"
  shows "spinup_option M ''combination'' (Some d) s =
           (Inr (PStr c), s, [Warn (Combination_Not_Valid v)])"
proof -
  have "spinup_option_depth 999 M ''combination'' (Some dd) = ret (PStr c)"
    using spinup_option_depth_valid [where n = 998 and M = M and dd = dd and c = c] assms(2,3) by simp
  with assms show ?thesis
    by (simp add: spinup_option_Some bind_def warn_def emit_def ret_def)
qed

theorem spinup_option_invalid_combination_witness:
  "spinup_option example_model ''combination'' (Some [''years'' \<mapsto> PNum 100]) example_filesystem =
     (Inr (PStr ''or''), example_filesystem, [Warn (Combination_Not_Valid PNone)])"
  using spinup_option_invalid_combination [where M = example_model and s = example_filesystem
      and dd = example_default_spinup_options and c = "''or''" and v = PNone
      and d = "[''years'' \<mapsto> PNum 100]"]
  by (simp add: example_model_def example_default_spinup_options_def)

lemma spinup_option_depth_no_default:
  assumes "default_spinup_options M = None \<or> (\<exists>dd. default_spinup_options M = Some dd \<and> (case dd ''combination'' of Some x \<Rightarrow> x | None \<Rightarrow> PNone) \<notin> {PStr ''and'', PStr ''or''})"
  shows "fst (spinup_option_depth n M ''combination'' (default_spinup_options M) s) = Inl RecursionError"
  using assms
  apply (induction n arbitrary: s)
   apply (auto simp: raise_def bind_def warn_def emit_def split: prod.splits sum.splits option.splits)
    apply (metis fst_conv)+
  done

section \<open>Facts about runs\<close>

lemma ancestor_run_dirs_eq: "ancestor_run_dirs (p, k) = map (Pair p) (rev [0..<k])"
proof (induction k)
  case 0
  show ?case by (subst ancestor_run_dirs.simps) (simp add: get_previous_run_dir_def)
next
  case (Suc k)
  show ?case by (subst ancestor_run_dirs.simps) (simp add: get_previous_run_dir_def Suc)
qed

lemma Metos3D_Job_load_Some:
  "runs_in s p = Some rs \<Longrightarrow> k < length rs \<Longrightarrow> job_file (rs ! k) = Some j \<Longrightarrow>
   Metos3D_Job_load (p, k) s = (Inr j, s, [])"
  by (simp add: Metos3D_Job_load_def)

lemma get_total_years_while_chain:
  assumes "runs_in s p = Some rs" and "k < length rs"
    and "\<forall>j\<le>k. job_file (rs ! j) = Some (J j)"
  shows "get_total_years_while (Some (p, k)) total_years s =
           (Inr (total_years + sum_list (map (\<lambda>j. last_year (J j)) (rev [0..<Suc k]))), s, [])"
  using assms(2,3)
proof (induction k arbitrary: total_years)
  case 0
  then have "Metos3D_Job_load (p, 0) s = (Inr (J 0), s, [])"
    using assms(1) by (simp add: Metos3D_Job_load_Some)
  then show ?case
    by (subst get_total_years_while.simps)
      (simp add: bind_pure get_previous_run_dir_def get_total_years_while.simps [of None] ret_def)
next
  case (Suc k)
  then have load: "Metos3D_Job_load (p, Suc k) s = (Inr (J (Suc k)), s, [])"
    using assms(1) by (simp add: Metos3D_Job_load_Some)
  have "get_total_years_while (Some (p, k)) (total_years + last_year (J (Suc k))) s =
          (Inr (total_years + last_year (J (Suc k)) +
             sum_list (map (\<lambda>j. last_year (J j)) (rev [0..<Suc k]))), s, [])"
    using Suc.prems by (intro Suc.IH) auto
  with load show ?case
    by (subst get_total_years_while.simps)
      (simp add: bind_pure get_previous_run_dir_def)
qed

lemma get_total_years_unreadable:
  assumes "runs_in s p = Some rs" and "k < length rs" and "j \<le> k" and "job_file (rs ! j) = None"
  shows "fst (get_total_years_while (Some (p, k)) total_years s) = Inl OSError"
  using assms(2,3)
proof (induction k arbitrary: total_years)
  case 0
  with assms(1,4) show ?case
    by (subst get_total_years_while.simps) (simp add: bind_def Metos3D_Job_load_def)
next
  case (Suc k)
  show ?case
  proof (cases "job_file (rs ! Suc k)")
    case None
    with assms(1) Suc.prems show ?thesis
      by (subst get_total_years_while.simps) (simp add: bind_def Metos3D_Job_load_def)
  next
    case (Some jb)
    with Suc.prems assms(4) have "j \<le> k" by (cases "j = Suc k") auto
    with Suc have "fst (get_total_years_while (Some (p, k)) (total_years + last_year jb) s) = Inl OSError"
      by simp
    with Some assms(1) Suc.prems show ?thesis
      by (subst get_total_years_while.simps)
        (auto simp add: bind_def Metos3D_Job_load_def get_previous_run_dir_def split: prod.splits sum.splits)
  qed
qed


lemma example_total_years:
  "get_total_years (Some (example_spinup_dir, 1)) example_filesystem = (Inr 5000, example_filesystem, [])"
proof -
  have "get_total_years_while (Some (example_spinup_dir, 1)) 0 example_filesystem =
          (Inr (0 + sum_list (map (\<lambda>j. last_year (the (job_file (example_runs ! j))))
             (rev [0..<Suc 1]))), example_filesystem, [])"
    by (rule get_total_years_while_chain [where rs = example_runs])
      (simp_all add: example_filesystem_def example_runs_def less_Suc_eq_le le_Suc_eq)
  then show ?thesis
    by (simp add: get_total_years_def example_runs_def example_job_def)
qed

lemma example_real_tolerance:
  "get_real_tolerance (example_spinup_dir, 1) example_filesystem =
     (Inr (2 / 10), example_filesystem, [])"
  by (simp add: get_real_tolerance_def bind_def Metos3D_Job_load_def example_filesystem_def
      example_runs_def example_job_def ret_def)

text \<open>
  Claim C1. For a run directory whose accumulated years are \<open>Y\<close> and whose achieved
  tolerance is \<open>R\<close>, and a policy with years \<open>y\<close>, tolerance \<open>t\<close> and combination \<open>c\<close>:
  with \<open>or\<close> the run matches exactly when \<open>Y \<ge> y\<close> or \<open>R \<le> t\<close>; with \<open>and\<close> it matches
  exactly when both hold or \<open>Y\<close> has reached \<open>MODEL_SPINUP_MAX_YEARS\<close>, and a warning is
  emitted exactly when the ceiling is reached with \<open>R > t\<close>; without a run directory the
  answer is false.
\<close>

theorem is_run_matching_options_policy:
  assumes "d ''years'' = Some (PNum y)" and "d ''tolerance'' = Some (PNum t)"
    and "d ''combination'' = Some (PStr c)" and "c = ''and'' \<or> c = ''or''"
    and "get_total_years (Some rd) s = (Inr Y, s, [])"
    and "get_real_tolerance rd s = (Inr R, s, [])"
  shows "is_run_matching_options M (Some rd) (Some d) s =
           (if c = ''or'' then (Inr (y \<le> Y \<or> R \<le> t), s, [])
            else (Inr (y \<le> Y \<and> R \<le> t \<or> MODEL_SPINUP_MAX_YEARS M \<le> Y), s,
                  if MODEL_SPINUP_MAX_YEARS M \<le> Y \<and> t < R
                  then [Warn (Max_Spinup_Years_Reached rd)] else []))
         \<and> is_run_matching_options M None (Some d) s = (Inr False, s, [])"
  using assms
  by (auto simp add: is_run_matching_options_def all_spinup_options_policy bind_pure
        or_else_def and_also_def ret_def warn_def emit_def bind_def)


theorem is_run_matching_options_policy_witness:
  "is_run_matching_options example_model (Some (example_spinup_dir, 1))
     (Some [''years'' \<mapsto> PNum 1000, ''tolerance'' \<mapsto> PNum (5 / 10), ''combination'' \<mapsto> PStr ''or''])
     example_filesystem = (Inr True, example_filesystem, [])
   \<and> is_run_matching_options example_model None
     (Some [''years'' \<mapsto> PNum 1000, ''tolerance'' \<mapsto> PNum (5 / 10), ''combination'' \<mapsto> PStr ''or''])
     example_filesystem = (Inr False, example_filesystem, [])"
  using is_run_matching_options_policy [where M = example_model and s = example_filesystem
      and rd = "(example_spinup_dir, 1)" and Y = 5000 and R = "2 / 10" and c = "''or''"
      and y = 1000 and t = "5 / 10"
      and d = "[''years'' \<mapsto> PNum 1000, ''tolerance'' \<mapsto> PNum (5 / 10), ''combination'' \<mapsto> PStr ''or'']"]
    example_total_years example_real_tolerance
  by simp

text \<open>
  Claim C9, as the words of the specification have it, fails: the total years of a run
  are not the years that the run and its ancestors were requested for. A job that
  reaches its tolerance stops before the years of its request are over, and
  \<^verbatim>\<open>get_total_years\<close> adds what the jobs report (\<^verbatim>\<open>job.last_year\<close>), here 3000 years for
  a request of 10000.
\<close>

theorem get_total_years_not_requested_years:
  "get_total_years (Some (example_spinup_dir, 0)) early_stop_filesystem =
     (Inr 3000, early_stop_filesystem, [])
   \<and> total_requested_years early_stop_filesystem (example_spinup_dir, 0) = 10000
   \<and> fst (get_total_years (Some (example_spinup_dir, 0)) early_stop_filesystem) \<noteq>
       Inr (total_requested_years early_stop_filesystem (example_spinup_dir, 0))"
proof -
  have total: "get_total_years (Some (example_spinup_dir, 0)) early_stop_filesystem =
      (Inr 3000, early_stop_filesystem, [])"
    unfolding get_total_years_def
    by (subst get_total_years_while.simps)
      (simp add: bind_def Metos3D_Job_load_def early_stop_filesystem_def get_previous_run_dir_def
        get_total_years_while.simps [of None] ret_def)
  have requested: "total_requested_years early_stop_filesystem (example_spinup_dir, 0) = 10000"
    by (simp add: total_requested_years_def requested_years_def ancestor_run_dirs_eq
        early_stop_filesystem_def)
  from total requested show ?thesis by simp
qed

text \<open>
  Claim C9, amended. The total years of run \<open>k\<close> of a chain whose job options can be read
  are the last year that its own job reports (\<^verbatim>\<open>job.last_year\<close>, which is less than the
  years of the request when the job stopped early) plus the last years that the
  jobs of all its ancestors report, and the ancestors are the runs \<open>k - 1\<close>, ..., \<open>0\<close> of the
  same directory, reached by stepping from a run index to the one before it.
\<close>

theorem get_total_years_sum_of_chain:
  assumes "runs_in s p = Some rs" and "k < length rs"
    and "\<forall>j\<le>k. job_file (rs ! j) = Some (J j)"
  shows "get_total_years (Some (p, k)) s =
           (Inr (last_year (J k) +
              sum_list (map (\<lambda>rd. last_year (J (snd rd))) (ancestor_run_dirs (p, k)))), s, [])
         \<and> ancestor_run_dirs (p, k) = map (\<lambda>j. (p, j)) (rev [0..<k])"
  using get_total_years_while_chain [OF assms, of 0]
  by (simp add: get_total_years_def ancestor_run_dirs_eq comp_def)

theorem get_total_years_sum_of_chain_witness:
  "get_total_years (Some (example_spinup_dir, 1)) example_filesystem =
     (Inr 5000, example_filesystem, [])
   \<and> ancestor_run_dirs (example_spinup_dir, 1) = [(example_spinup_dir, 0)]"
  using get_total_years_sum_of_chain [where s = example_filesystem and p = example_spinup_dir
      and rs = example_runs and k = 1 and J = "\<lambda>j. the (job_file (example_runs ! j))"]
  by (simp add: example_filesystem_def example_runs_def example_job_def less_Suc_eq_le le_Suc_eq)

section \<open>What the total years depend on\<close>

text \<open>The job options stored for a run directory, if there are any to read.\<close>

definition job_at :: "filesystem \<Rightarrow> run_dir \<Rightarrow> job option" where
  "job_at s rd =
     (case runs_in s (fst rd) of
        None \<Rightarrow> None
      | Some rs \<Rightarrow> if snd rd < length rs then job_file (rs ! snd rd) else None)"

lemma Metos3D_Job_load_job_at:
  "Metos3D_Job_load rd s = (case job_at s rd of None \<Rightarrow> Inl OSError | Some j \<Rightarrow> Inr j, s, [])"
  by (simp add: Metos3D_Job_load_def job_at_def split: option.splits)

lemma get_total_years_while_pure:
  "\<exists>r. get_total_years_while run_dir total_years s = (r, s, [])"
proof (induction run_dir total_years s rule: get_total_years_while.induct)
  case (1 run_dir total_years s)
  show ?case
  proof (cases run_dir)
    case None
    then show ?thesis by (subst get_total_years_while.simps) (simp add: ret_def)
  next
    case (Some rd)
    show ?thesis
    proof (cases "job_at s rd")
      case None
      with Some show ?thesis
        by (subst get_total_years_while.simps) (simp add: bind_def Metos3D_Job_load_job_at)
    next
      case (Some j)
      with \<open>run_dir = Some rd\<close> 1 [of rd j s "[]"] show ?thesis
        by (subst get_total_years_while.simps) (auto simp add: bind_def Metos3D_Job_load_job_at)
    qed
  qed
qed

lemma get_total_years_while_frame:
  assumes "\<forall>j\<le>k. job_at s' (p, j) = job_at s (p, j)"
  shows "fst (get_total_years_while (Some (p, k)) total_years s') =
         fst (get_total_years_while (Some (p, k)) total_years s)"
  using assms
proof (induction k arbitrary: total_years)
  case 0
  then show ?case
    by (subst (1 2) get_total_years_while.simps)
      (simp add: bind_def Metos3D_Job_load_job_at get_previous_run_dir_def
        get_total_years_while.simps [of None] ret_def split: option.splits)
next
  case (Suc k)
  then have "fst (get_total_years_while (Some (p, k)) t s') =
             fst (get_total_years_while (Some (p, k)) t s)" for t
    by simp
  moreover have "job_at s' (p, Suc k) = job_at s (p, Suc k)"
    using Suc.prems by simp
  ultimately show ?case
    by (subst (1 2) get_total_years_while.simps)
      (simp add: bind_def Metos3D_Job_load_job_at get_previous_run_dir_def
        split: option.splits prod.splits)
qed


section \<open>The step of the finite difference\<close>

lemma eta_pos: "0 < eta"
  by (simp add: eta_def)

lemma h_i_pos: "0 < max \<bar>p\<bar> (1 / 10) * eta"
  using eta_pos by (simp add: max_def)

text \<open>
  Claim C3. For a parameter \<open>p\<close> at an index and a factor, the step starts as the factor
  times \<open>max(|p|, 0.1) * 1e-7\<close>. If \<open>p\<close> plus that step violates a bound, accuracy order 2
  takes the bound itself as the perturbed value and accuracy order 1 takes \<open>p\<close> minus
  the step; the step that is recorded is the perturbed value minus \<open>p\<close>. So for accuracy
  order 2 and \<open>p\<close> at its upper bound the step in the positive direction is \<open>0\<close> and the
  step in the negative direction has the full size (the lower bound being at least one
  step away).
\<close>

theorem df_step_respects_bounds:
  assumes "parameter_index < length parameters"
    and "parameter_index < length (parameters_lower_bound M)"
    and "parameter_index < length (parameters_upper_bound M)"
    and "p = parameters ! parameter_index"
    and "lower_bound = parameters_lower_bound M ! parameter_index"
    and "upper_bound = parameters_upper_bound M ! parameter_index"
    and "h_i = max \<bar>p\<bar> (1 / 10) * (1 / 10 ^ 7)"
  shows "df_h_i parameters parameter_index s = (Inr h_i, s, [])
    \<and> (\<forall>h_factor. \<exists>parameters_der_i.
          df_parameters_der M accuracy_order parameters parameter_index h_i h_factor s =
            (Inr (parameters[parameter_index := parameters_der_i], parameters_der_i - p), s, [])
          \<and> (accuracy_order \<noteq> 1 \<longrightarrow>
               parameters_der_i =
                 (if p + real_of_int h_factor * h_i < lower_bound then lower_bound
                  else if p + real_of_int h_factor * h_i > upper_bound then upper_bound
                  else p + real_of_int h_factor * h_i))
          \<and> (accuracy_order = 1 \<longrightarrow>
               parameters_der_i =
                 (if p + real_of_int h_factor * h_i < lower_bound \<or>
                     p + real_of_int h_factor * h_i > upper_bound
                  then p - real_of_int h_factor * h_i
                  else p + real_of_int h_factor * h_i)))
    \<and> (accuracy_order = 2 \<and> p = upper_bound \<and> lower_bound \<le> p - h_i \<longrightarrow>
          df_parameters_der M accuracy_order parameters parameter_index h_i 1 s =
            (Inr (parameters[parameter_index := upper_bound], 0), s, [])
          \<and> df_parameters_der M accuracy_order parameters parameter_index h_i (- 1) s =
            (Inr (parameters[parameter_index := p - h_i], - h_i), s, []))"
proof -
  have pos: "0 < h_i"
    using h_i_pos [of p] by (simp add: assms(7) eta_def)
  have 1: "df_h_i parameters parameter_index s = (Inr h_i, s, [])"
    using assms by (simp add: df_h_i_def index_def ret_def eta_def)
  have 2: "\<exists>parameters_der_i.
          df_parameters_der M accuracy_order parameters parameter_index h_i h_factor s =
            (Inr (parameters[parameter_index := parameters_der_i], parameters_der_i - p), s, [])
          \<and> (accuracy_order \<noteq> 1 \<longrightarrow>
               parameters_der_i =
                 (if p + real_of_int h_factor * h_i < lower_bound then lower_bound
                  else if p + real_of_int h_factor * h_i > upper_bound then upper_bound
                  else p + real_of_int h_factor * h_i))
          \<and> (accuracy_order = 1 \<longrightarrow>
               parameters_der_i =
                 (if p + real_of_int h_factor * h_i < lower_bound \<or>
                     p + real_of_int h_factor * h_i > upper_bound
                  then p - real_of_int h_factor * h_i
                  else p + real_of_int h_factor * h_i))" for h_factor
    using assms(1-6)
    by (cases "accuracy_order = 1") (simp_all add: df_parameters_der_def index_def ret_def Let_def)
  have 3: "df_parameters_der M accuracy_order parameters parameter_index h_i 1 s =
            (Inr (parameters[parameter_index := upper_bound], 0), s, [])
          \<and> df_parameters_der M accuracy_order parameters parameter_index h_i (- 1) s =
            (Inr (parameters[parameter_index := p - h_i], - h_i), s, [])"
    if "accuracy_order = 2" "p = upper_bound" "lower_bound \<le> p - h_i"
    using that assms(1-6) pos
    by (simp add: df_parameters_der_def index_def ret_def Let_def)
  from 1 2 3 show ?thesis by blast
qed


theorem df_step_respects_bounds_witness:
  "df_h_i [1, 2] 0 example_filesystem = (Inr (1 / 10 ^ 7), example_filesystem, [])
   \<and> df_parameters_der example_model 2 [1, 2] 0 (1 / 10 ^ 7) 1 example_filesystem =
       (Inr ([1, 2], 0), example_filesystem, [])
   \<and> df_parameters_der example_model 2 [1, 2] 0 (1 / 10 ^ 7) (- 1) example_filesystem =
       (Inr ([1 - 1 / 10 ^ 7, 2], - (1 / 10 ^ 7)), example_filesystem, [])"
  using df_step_respects_bounds [where M = example_model and parameters = "[1, 2]"
      and parameter_index = 0 and accuracy_order = 2 and s = example_filesystem
      and p = 1 and lower_bound = 0 and upper_bound = 1 and h_i = "1 / 10 ^ 7"]
  by (simp add: example_model_def)

section \<open>Facts about the scan for the closest parameter set\<close>

lemma example_in_bounds:
  "check_if_parameters_in_bounds example_model [1, 2] = ret ()"
  by (simp add: check_if_parameters_in_bounds_def example_model_def np_elementwise_def lift_def
      bind_def ret_def fun_eq_iff)

lemma scan_unreadable_candidate_raises:
  assumes "fless (Fin 0) closest_parameters_diff"
    and "loadtxt_parameters current_parameter_set_dir s = (Inl OSError, s, [])"
  shows "get_closest_parameter_set_dir_while parameters no_spinup_okay
           (current_parameter_set_dir # parameter_set_dirs)
           closest_parameter_set_dir closest_parameters_diff s = (Inl NameError, s, [])"
  using assms
  by (simp add: bind_def try_except_def get_parameters_diff_def current_parameters_file_def
      raise_def)

text \<open>
  Claim C8. A candidate whose parameters file cannot be read is to be skipped with a
  warning and the scan is to go on. In the code the handler's warning names a variable
  that does not exist, so the scan ends with \<open>NameError\<close>: here the first candidate is
  unreadable and the second one holds exactly the parameters asked for.
\<close>

theorem closest_scan_unreadable_candidate:
  "get_closest_parameter_set_dir example_model 1 [1, 2] True unreadable_filesystem =
     (Inl NameError, unreadable_filesystem, [])"
  by (simp add: get_closest_parameter_set_dir_def example_in_bounds get_time_step_dir_def
      unreadable_filesystem_def bind_def get_dirs_def try_except_def get_parameters_diff_def
      loadtxt_parameters_def current_parameters_file_def raise_def ret_def)


lemma search_free_index_free:
  "search_free_index existing n \<notin> set existing \<and> n \<le> search_free_index existing n
   \<and> (\<forall>m. n \<le> m \<and> m < search_free_index existing n \<longrightarrow> m \<in> set existing)"
proof (induction existing n rule: search_free_index.induct)
  case (1 existing n)
  show ?case
  proof (cases "n \<in> set existing")
    case True
    with 1 have IH: "search_free_index existing (Suc n) \<notin> set existing \<and>
        Suc n \<le> search_free_index existing (Suc n) \<and>
        (\<forall>m. Suc n \<le> m \<and> m < search_free_index existing (Suc n) \<longrightarrow> m \<in> set existing)"
      by simp
    have eq: "search_free_index existing n = search_free_index existing (Suc n)"
      using True by (subst search_free_index.simps) simp
    have "m \<in> set existing" if "n \<le> m" "m < search_free_index existing (Suc n)" for m
    proof (cases "m = n")
      case True
      with \<open>n \<in> set existing\<close> show ?thesis by simp
    next
      case False
      with that have "Suc n \<le> m" by simp
      with that IH show ?thesis by blast
    qed
    with IH show ?thesis
      unfolding eq by auto
  next
    case False
    then have "search_free_index existing n = n"
      by (subst search_free_index.simps) simp
    with False show ?thesis by auto
  qed
qed

lemma scan_keeps_closest:
  assumes "\<forall>c\<in>set rest. get_parameters_diff parameters c s = (Inr (distance c), s, [])"
    and "\<forall>c\<in>set rest. 0 \<le> distance c" and "0 \<le> distance c0"
  shows "\<exists>c. get_closest_parameter_set_dir_while parameters True rest (Some c0) (Fin (distance c0)) s =
               (Inr (Some c), s, [])
             \<and> c \<in> insert c0 (set rest) \<and> (\<forall>c'\<in>insert c0 (set rest). distance c \<le> distance c')"
  using assms
proof (induction rest arbitrary: c0)
  case Nil
  then show ?case by (simp add: ret_def)
next
  case (Cons cur rest)
  have cur: "get_parameters_diff parameters cur s = (Inr (distance cur), s, [])"
    using Cons.prems by simp
  show ?case
  proof (cases "0 < distance c0")
    case False
    with Cons.prems have "distance c0 = 0" by simp
    with Cons.prems show ?thesis by (auto simp: ret_def)
  next
    case True
    show ?thesis
    proof (cases "distance cur < distance c0")
      case less: True
      from Cons.IH [of cur] Cons.prems obtain c where
        c: "get_closest_parameter_set_dir_while parameters True rest (Some cur) (Fin (distance cur)) s =
               (Inr (Some c), s, [])"
        "c \<in> insert cur (set rest)" "\<forall>c'\<in>insert cur (set rest). distance c \<le> distance c'"
        by auto
      then have "distance c \<le> distance c0" using less by auto
      with c True less cur show ?thesis
        by (auto simp: bind_def try_except_def ret_def intro!: exI [of _ c])
    next
      case notless: False
      from Cons.IH [of c0] Cons.prems obtain c where
        c: "get_closest_parameter_set_dir_while parameters True rest (Some c0) (Fin (distance c0)) s =
               (Inr (Some c), s, [])"
        "c \<in> insert c0 (set rest)" "\<forall>c'\<in>insert c0 (set rest). distance c \<le> distance c'"
        by auto
      then have "distance c \<le> distance cur" using notless by auto
      with c True notless cur show ?thesis
        by (auto simp: bind_def try_except_def ret_def intro!: exI [of _ c])
    qed
  qed
qed

lemma scan_finds_closest:
  assumes "\<forall>c\<in>set dirs. get_parameters_diff parameters c s = (Inr (distance c), s, [])"
    and "\<forall>c\<in>set dirs. 0 \<le> distance c" and "dirs \<noteq> []"
  shows "\<exists>c. get_closest_parameter_set_dir_while parameters True dirs None PosInf s =
               (Inr (Some c), s, [])
             \<and> c \<in> set dirs \<and> (\<forall>c'\<in>set dirs. distance c \<le> distance c')"
proof -
  from assms(3) obtain cur rest where dirs: "dirs = cur # rest" by (cases dirs) auto
  from scan_keeps_closest [of rest parameters s distance cur] assms dirs obtain c where
    "get_closest_parameter_set_dir_while parameters True rest (Some cur) (Fin (distance cur)) s =
               (Inr (Some c), s, [])"
    "c \<in> insert cur (set rest)" "\<forall>c'\<in>insert cur (set rest). distance c \<le> distance c'"
    by auto
  with assms(1) dirs show ?thesis
    by (auto simp: bind_def try_except_def ret_def intro!: exI [of _ c])
qed

lemma linalg_norm_nonneg: "0 \<le> linalg_norm xs"
  by (simp add: linalg_norm_def) (rule sum_list_nonneg, auto)

lemma get_parameters_diff_nonneg:
  "get_parameters_diff parameters c s = (Inr d, s', l) \<Longrightarrow> 0 \<le> d"
  by (auto simp: get_parameters_diff_def bind_def ret_def lift_def linalg_norm_nonneg
      split: prod.splits sum.splits)


lemma get_closest_parameter_set_dir_finds:
  assumes bounds: "check_if_parameters_in_bounds M parameters s = (Inr (), s, [])"
    and dirs: "time_step_dirs s time_step = Some dirs" "dirs \<noteq> []"
    and readable: "\<forall>(number, ps)\<in>set dirs.
        get_parameters_diff parameters (time_step, number) s = (Inr (distance number), s, [])"
  shows "\<exists>number. get_closest_parameter_set_dir M time_step parameters True s =
           (Inr (Some (time_step, number)), s, [])
         \<and> number \<in> fst ` set dirs \<and> distance number = Min (distance ` fst ` set dirs)"
proof -
  let ?cs = "map (\<lambda>(number, ps). (time_step, number)) dirs"
  have diffs: "\<forall>c\<in>set ?cs. get_parameters_diff parameters c s = (Inr (distance (snd c)), s, [])"
    using readable by auto
  then have nonneg: "\<forall>c\<in>set ?cs. 0 \<le> distance (snd c)"
    using get_parameters_diff_nonneg by blast
  have "?cs \<noteq> []" using dirs(2) by simp
  from scan_finds_closest [OF diffs nonneg this] obtain c where
    c: "get_closest_parameter_set_dir_while parameters True ?cs None PosInf s =
          (Inr (Some c), s, [])"
      "c \<in> set ?cs" "\<forall>c'\<in>set ?cs. distance (snd c) \<le> distance (snd c')"
    by blast
  from c(2) obtain e where "e \<in> set dirs" "c = (time_step, fst e)"
    by (auto simp: case_prod_unfold)
  then obtain number where number: "c = (time_step, number)" "number \<in> fst ` set dirs"
    by blast
  have "distance number = Min (distance ` fst ` set dirs)"
  proof (rule Min_eqI [symmetric])
    show "finite (distance ` fst ` set dirs)" by simp
    show "distance number \<in> distance ` fst ` set dirs" using number(2) by blast
    fix y assume "y \<in> distance ` fst ` set dirs"
    then obtain e where "e \<in> set dirs" "y = distance (fst e)" by auto
    then have "(time_step, fst e) \<in> set ?cs"
      by (auto simp: image_iff case_prod_unfold intro!: bexI [of _ e])
    with c(3) number(1) \<open>y = distance (fst e)\<close> show "distance number \<le> y" by force
  qed
  moreover have "get_closest_parameter_set_dir M time_step parameters True s =
      (Inr (Some c), s, [])"
    using bounds dirs(1) c(1)
    by (simp add: get_closest_parameter_set_dir_def bind_def get_time_step_dir_def get_dirs_def)
  ultimately show ?thesis using number by auto
qed

lemma create_parameter_set_dir:
  assumes dirs: "time_step_dirs s time_step = Some dirs" and fresh: "free \<notin> fst ` set dirs"
  shows "bind (makedirs_parameter_set (time_step, free)) (\<lambda>_.
         bind (savetxt_parameters (time_step, free) parameters) (\<lambda>_.
         bind (chmod_parameters_read_only (time_step, free)) (\<lambda>_.
           ret (Some (time_step, free))))) s =
         (Inr (Some (time_step, free)),
          s\<lparr>time_step_dirs := (time_step_dirs s)(time_step \<mapsto>
               dirs @ [(free, \<lparr>stored_parameters = Some (parameters, Read_Only)\<rparr>)])\<rparr>, [])"
proof -
  let ?put = "\<lambda>c. s\<lparr>time_step_dirs := (time_step_dirs s)(time_step \<mapsto>
               dirs @ [(free, \<lparr>stored_parameters = c\<rparr>)])\<rparr>"
  have map_fresh: "map (\<lambda>(number, ps). if number = free then (number, ps\<lparr>stored_parameters := c\<rparr>)
                         else (number, ps)) dirs = dirs" for c
    using fresh by (induction dirs) auto
  have "map_of dirs free = None"
    using fresh by (simp add: map_of_eq_None_iff)
  then have lookup: "([free \<mapsto> ps] ++ map_of dirs) free = Some ps" for ps
    by (simp add: map_add_def)
  have 1: "makedirs_parameter_set (time_step, free) s = (Inr (), ?put None, [])"
    using dirs by (simp add: makedirs_parameter_set_def)
  have written: "write_parameters_file (time_step, free) c (?put c') = (Inr (), ?put c, [])" for c c'
    by (simp add: write_parameters_file_def map_fresh)
  have 2: "savetxt_parameters (time_step, free) parameters (?put None) =
      (Inr (), ?put (Some (parameters, Writable)), [])"
    by (simp add: savetxt_parameters_def written)
  have load: "loadtxt_parameters (time_step, free) (?put (Some (parameters, Writable))) =
      (Inr parameters, ?put (Some (parameters, Writable)), [])"
    by (simp add: loadtxt_parameters_def lookup)
  have 3: "chmod_parameters_read_only (time_step, free) (?put (Some (parameters, Writable))) =
      (Inr (), ?put (Some (parameters, Read_Only)), [])"
    by (simp add: chmod_parameters_read_only_def bind_def load written)
  show ?thesis
    by (simp add: bind_def 1 2 3 ret_def)
qed

text \<open>
  Claim C2. Take a query that passes the bounds check and a time step whose stored
  vectors can all be read, and let \<open>smallest\<close> be the smallest distance of the query to
  a stored vector. If \<open>smallest\<close> is at most \<open>MODEL_PARAMETERS_MAX_DIFF\<close> (so also when it
  is exactly the threshold), the directory of a stored vector at that distance is
  returned and no directory is made. If it is greater, then with \<open>create\<close> a directory
  with the first free index is made, the query is stored in it read-only, and it is
  returned; without \<open>create\<close> the answer is \<open>None\<close>.
\<close>

theorem get_parameter_set_dir_threshold:
  assumes bounds: "check_if_parameters_in_bounds M parameters s = (Inr (), s, [])"
    and dirs: "time_step_dirs s time_step = Some dirs" "dirs \<noteq> []"
    and readable: "\<forall>(number, ps)\<in>set dirs.
        get_parameters_diff parameters (time_step, number) s = (Inr (distance number), s, [])"
    and smallest: "smallest = Min (distance ` fst ` set dirs)"
    and free: "free = search_free_index (map fst dirs) 0"
  shows "(smallest \<le> MODEL_PARAMETERS_MAX_DIFF M \<longrightarrow>
           (\<exists>number. get_parameter_set_dir M time_step parameters create s =
               (Inr (Some (time_step, number)), s, [])
             \<and> number \<in> fst ` set dirs \<and> distance number = smallest))
       \<and> (smallest > MODEL_PARAMETERS_MAX_DIFF M \<longrightarrow>
            get_parameter_set_dir M time_step parameters True s =
              (Inr (Some (time_step, free)),
               s\<lparr>time_step_dirs := (time_step_dirs s)(time_step \<mapsto>
                    dirs @ [(free, \<lparr>stored_parameters = Some (parameters, Read_Only)\<rparr>)])\<rparr>, [])
            \<and> free \<notin> fst ` set dirs
            \<and> get_parameter_set_dir M time_step parameters False s = (Inr None, s, []))"
proof -
  from get_closest_parameter_set_dir_finds [OF bounds dirs readable] obtain number where
    closest: "get_closest_parameter_set_dir M time_step parameters True s =
           (Inr (Some (time_step, number)), s, [])"
    and number: "number \<in> fst ` set dirs" "distance number = smallest"
    using smallest by auto
  from number(1) readable have diff:
    "get_parameters_diff parameters (time_step, number) s = (Inr (distance number), s, [])"
    by auto
  have fresh: "free \<notin> fst ` set dirs"
    using search_free_index_free [of "map fst dirs" 0] free by simp
  have accept: "get_parameter_set_dir M time_step parameters create s =
      (Inr (Some (time_step, number)), s, [])" if "smallest \<le> MODEL_PARAMETERS_MAX_DIFF M"
    using that closest diff number(2)
    by (simp add: get_parameter_set_dir_def bind_def ret_def)
  have none: "get_parameter_set_dir M time_step parameters False s = (Inr None, s, [])"
    if "smallest > MODEL_PARAMETERS_MAX_DIFF M"
    using that closest diff number(2)
    by (simp add: get_parameter_set_dir_def bind_def ret_def)
  have existing: "get_dirs time_step s = (Inr (map (\<lambda>(number, ps). (time_step, number)) dirs), s, [])"
    using dirs(1) by (simp add: get_dirs_def)
  have snd_existing: "map (snd \<circ> (\<lambda>(number, ps). (time_step, number))) dirs = map fst dirs"
    by (simp add: comp_def case_prod_unfold)
  have created: "get_parameter_set_dir M time_step parameters True s =
      (Inr (Some (time_step, free)),
       s\<lparr>time_step_dirs := (time_step_dirs s)(time_step \<mapsto>
            dirs @ [(free, \<lparr>stored_parameters = Some (parameters, Read_Only)\<rparr>)])\<rparr>, [])"
    if "smallest > MODEL_PARAMETERS_MAX_DIFF M"
  proof -
    have "get_parameter_set_dir M time_step parameters True s =
        bind (makedirs_parameter_set (time_step, free)) (\<lambda>_.
         bind (savetxt_parameters (time_step, free) parameters) (\<lambda>_.
         bind (chmod_parameters_read_only (time_step, free)) (\<lambda>_.
           ret (Some (time_step, free))))) s"
      using that closest diff number(2) dirs(1) existing
      by (simp add: get_parameter_set_dir_def bind_pure ret_def
          get_time_step_dir_def snd_existing free Let_def)
    then show ?thesis
      by (simp add: create_parameter_set_dir [OF dirs(1) fresh])
  qed
  from accept none created fresh number show ?thesis by blast
qed


lemma example_check_in_bounds_3: "check_if_parameters_in_bounds example_model [1, 3] s = (Inr (), s, [])"
  by (simp add: check_if_parameters_in_bounds_def example_model_def np_elementwise_def lift_def
      bind_def ret_def)

lemma example_check_in_bounds_4: "check_if_parameters_in_bounds example_model [1, 4] s = (Inr (), s, [])"
  by (simp add: check_if_parameters_in_bounds_def example_model_def np_elementwise_def lift_def
      bind_def ret_def)

lemma example_diff_3:
  "get_parameters_diff [1, 3] (1, 0) example_filesystem = (Inr 1, example_filesystem, [])"
  by (simp add: get_parameters_diff_def loadtxt_parameters_def example_filesystem_def bind_def
      lift_def np_elementwise_def linalg_norm_def ret_def)

lemma example_diff_4:
  "get_parameters_diff [1, 4] (1, 0) example_filesystem = (Inr 2, example_filesystem, [])"
  by (simp add: get_parameters_diff_def loadtxt_parameters_def example_filesystem_def bind_def
      lift_def np_elementwise_def linalg_norm_def ret_def)

lemma example_free_index: "search_free_index [0] 0 = 1"
  by (simp add: search_free_index.simps [of "[0]" 0] search_free_index.simps [of "[0]" "Suc 0"])

theorem get_parameter_set_dir_threshold_witness:
  "get_parameter_set_dir example_model 1 [1, 3] True example_filesystem =
     (Inr (Some (1, 0)), example_filesystem, [])
   \<and> get_parameter_set_dir example_model 1 [1, 4] True example_filesystem =
     (Inr (Some (1, 1)),
      example_filesystem\<lparr>time_step_dirs := (time_step_dirs example_filesystem)(1 \<mapsto>
        [(0, \<lparr>stored_parameters = Some ([1, 2], Read_Only)\<rparr>),
         (1, \<lparr>stored_parameters = Some ([1, 4], Read_Only)\<rparr>)])\<rparr>, [])
   \<and> get_parameter_set_dir example_model 1 [1, 4] False example_filesystem =
     (Inr None, example_filesystem, [])"
proof -
  have dirs: "time_step_dirs example_filesystem 1 =
      Some [(0, \<lparr>stored_parameters = Some ([1, 2], Read_Only)\<rparr>)]"
    by (simp add: example_filesystem_def)
  have max_diff: "MODEL_PARAMETERS_MAX_DIFF example_model = 1"
    by (simp add: example_model_def)
  from get_parameter_set_dir_threshold [where M = example_model and parameters = "[1, 3]"
      and s = example_filesystem and time_step = 1 and distance = "\<lambda>number. 1"
      and smallest = 1 and free = 1 and create = True, OF example_check_in_bounds_3 dirs]
  have exact: "get_parameter_set_dir example_model 1 [1, 3] True example_filesystem =
     (Inr (Some (1, 0)), example_filesystem, [])"
    using example_diff_3 by (simp add: max_diff example_free_index)
  from get_parameter_set_dir_threshold [where M = example_model and parameters = "[1, 4]"
      and s = example_filesystem and time_step = 1 and distance = "\<lambda>number. 2"
      and smallest = 2 and free = 1, OF example_check_in_bounds_4 dirs]
  have beyond: "get_parameter_set_dir example_model 1 [1, 4] True example_filesystem =
     (Inr (Some (1, 1)),
      example_filesystem\<lparr>time_step_dirs := (time_step_dirs example_filesystem)(1 \<mapsto>
        [(0, \<lparr>stored_parameters = Some ([1, 2], Read_Only)\<rparr>),
         (1, \<lparr>stored_parameters = Some ([1, 4], Read_Only)\<rparr>)])\<rparr>, [])
     \<and> get_parameter_set_dir example_model 1 [1, 4] False example_filesystem =
     (Inr None, example_filesystem, [])"
    using example_diff_4 by (simp add: max_diff example_free_index)
  from exact beyond show ?thesis by simp
qed


section \<open>Facts about creating a run\<close>

lemma check_if_parameters_in_bounds_pure:
  "\<exists>r. check_if_parameters_in_bounds M parameters s = (r, s, [])"
  by (simp add: check_if_parameters_in_bounds_def bind_def lift_def raise_def ret_def
      split: sum.splits)

lemma wait_until_job_finished_no_init:
  assumes "wait_until_job_finished d make_read_only wait_seconds s = (r, s', l)"
  shows "Job_Init d' req \<notin> set l"
  using assms
  by (cases d)
    (auto simp: wait_until_job_finished_def bind_def Metos3D_Job_force_load_def
      Metos3D_Job_load_job_at Metos3D_Job_make_read_only_def Metos3D_Job_wait_until_finished_def
      make_read_only_recursively_def emit_def ret_def split: if_splits option.splits)

lemma run_job_init:
  assumes "run_job M model_parameters output_path years tolerance time_step job_setup
             write_trajectory tracer_input_path wait_seconds make_read_only s = (r, s', l)"
    and "Job_Init d req \<in> set l"
  shows "d = output_path \<and> job_years req = years \<and> job_tracer_input_path req = tracer_input_path"
proof -
  obtain c where c: "check_if_parameters_in_bounds M model_parameters s = (c, s, [])"
    using check_if_parameters_in_bounds_pure by blast
  show ?thesis
    using assms wait_until_job_finished_no_init [where d = output_path and d' = d and req = req]
    by (cases output_path)
      (auto simp: run_job_def bind_def c raise_def Metos3D_Job_init_def Metos3D_Job_start_def
        Metos3D_Job_make_read_only_def emit_def ret_def
        split: if_splits sum.splits prod.splits option.splits)
qed

definition prepared_run :: "run_parent \<Rightarrow> real \<Rightarrow> real \<Rightarrow> int \<Rightarrow> filesystem \<Rightarrow> filesystem" where
  "prepared_run output_path y t time_step s =
     s\<lparr>runs_in := (runs_in s)(output_path \<mapsto>
          (case runs_in s output_path of None \<Rightarrow> [] | Some rs \<Rightarrow> rs) @
          [\<lparr>run_options_file = Some (y, t, time_step), job_file = None\<rparr>])\<rparr>"

definition next_run_dir :: "run_parent \<Rightarrow> filesystem \<Rightarrow> run_dir" where
  "next_run_dir output_path s =
     (output_path, length (case runs_in s output_path of None \<Rightarrow> [] | Some rs \<Rightarrow> rs))"

lemma make_run_unfold:
  assumes "check_if_parameters_in_bounds M parameters s = (Inr (), s, [])"
  shows "make_run M output_path parameters (PNum y) (PNum t) time_step job_setup
           tracer_input_path wait_seconds s =
         bind (if tracer_input_path \<noteq> None \<and> Some output_path = map_option fst tracer_input_path
               then get_total_years tracer_input_path else ret 0) (\<lambda>last_years.
         bind (run_job M parameters (Run_Dir (next_run_dir output_path s)) (y - last_years) t
                 time_step job_setup False tracer_input_path wait_seconds True) (\<lambda>_.
           ret (next_run_dir output_path s)))
           (prepared_run output_path y t time_step s)"
  using assms
  by (cases "runs_in s output_path")
    (auto simp add: make_run_def bind_def Let_def makedirs_if_not_exists_def get_run_dirs_def
      makedirs_run_def savetxt_run_options_def number_def ret_def prepared_run_def
      next_run_dir_def split: prod.splits sum.splits)

lemma make_run_out_of_bounds:
  assumes "check_if_parameters_in_bounds M parameters s = (Inl e, s, [])"
  shows "make_run M output_path parameters years tolerance time_step job_setup
           tracer_input_path wait_seconds s = (Inl e, s, [])"
  using assms by (simp add: make_run_def bind_def)

lemma make_run_not_a_number:
  assumes "make_run M output_path parameters years tolerance time_step job_setup
             tracer_input_path wait_seconds s = (r, s', l)"
    and "\<forall>y t. (years, tolerance) \<noteq> (PNum y, PNum t)"
  shows "l = []"
proof -
  obtain c where c: "check_if_parameters_in_bounds M parameters s = (c, s, [])"
    using check_if_parameters_in_bounds_pure by blast
  show ?thesis
    using assms
    by (cases "runs_in s output_path")
      (auto simp: make_run_def bind_def c Let_def makedirs_if_not_exists_def get_run_dirs_def
        makedirs_run_def savetxt_run_options_def
        split: sum.splits pyval.splits)
qed

lemma job_at_prepared_run:
  "job_at (prepared_run output_path y t time_step s) rd = job_at s rd"
  by (auto simp: job_at_def prepared_run_def nth_append split: option.splits)

lemma get_total_years_prepared_run:
  "get_total_years tracer_input_path (prepared_run output_path y t time_step s) =
     (fst (get_total_years tracer_input_path s), prepared_run output_path y t time_step s, [])"
proof (cases tracer_input_path)
  case None
  then show ?thesis
    by (simp add: get_total_years_def get_total_years_while.simps [of None] ret_def)
next
  case (Some rd)
  obtain p k where rd: "rd = (p, k)" by (cases rd)
  have "fst (get_total_years_while (Some (p, k)) 0 (prepared_run output_path y t time_step s)) =
        fst (get_total_years_while (Some (p, k)) 0 s)"
    by (rule get_total_years_while_frame) (simp add: job_at_prepared_run)
  then show ?thesis
    using get_total_years_while_pure [of "Some (p, k)" 0 "prepared_run output_path y t time_step s"]
    by (auto simp: get_total_years_def Some rd)
qed

text \<open>
  Claim C6. Whatever a call of \<^verbatim>\<open>make_run\<close> with target years \<open>N\<close> hands to the job handle
  (\<^verbatim>\<open>job.init\<close>) carries, as its years, \<open>N\<close> minus the total years of the input run when
  the input run lies in the directory of the new run, and \<open>N\<close> itself when the input run
  lies elsewhere or there is none.
\<close>

theorem make_run_submitted_years:
  assumes "make_run M output_path parameters (PNum N) tolerance time_step job_setup
             tracer_input_path wait_seconds s = (r, s', l)"
    and "Job_Init d req \<in> set l"
  shows "\<exists>accumulated.
           (tracer_input_path \<noteq> None \<and> map_option fst tracer_input_path = Some output_path \<longrightarrow>
              fst (get_total_years tracer_input_path s) = Inr accumulated)
           \<and> job_years req =
               (if tracer_input_path \<noteq> None \<and> map_option fst tracer_input_path = Some output_path
                then N - accumulated else N)
           \<and> job_tracer_input_path req = tracer_input_path"
proof -
  obtain c where c: "check_if_parameters_in_bounds M parameters s = (c, s, [])"
    using check_if_parameters_in_bounds_pure by blast
  obtain t where t: "tolerance = PNum t"
    using make_run_not_a_number [OF assms(1)] assms(2) by (cases tolerance) auto
  have ok: "c = Inr ()"
    using make_run_out_of_bounds [of M parameters s] c assms by (cases c) auto
  let ?s3 = "prepared_run output_path N t time_step s"
  let ?same = "tracer_input_path \<noteq> None \<and> Some output_path = map_option fst tracer_input_path"
  note unfold = make_run_unfold [of M parameters s output_path N t time_step job_setup
      tracer_input_path wait_seconds]
  show ?thesis
  proof (cases ?same)
    case True
    show ?thesis
    proof (cases "fst (get_total_years tracer_input_path s)")
      case (Inl e)
      with True assms c ok t have "l = []"
        by (auto simp: unfold bind_def get_total_years_prepared_run)
      with assms(2) show ?thesis by simp
    next
      case (Inr accumulated)
      with True assms(1) c ok t obtain r1 s1 l1 where
        "run_job M parameters (Run_Dir (next_run_dir output_path s)) (N - accumulated) t
           time_step job_setup False tracer_input_path wait_seconds True ?s3 = (r1, s1, l1)"
        and "l = l1"
        by (auto simp: unfold bind_def get_total_years_prepared_run ret_def
            split: sum.splits prod.splits)
      with assms(2) have "job_years req = N - accumulated \<and>
          job_tracer_input_path req = tracer_input_path"
        using run_job_init by blast
      with True Inr show ?thesis by auto
    qed
  next
    case False
    with assms(1) c ok t obtain r1 s1 l1 where
      "run_job M parameters (Run_Dir (next_run_dir output_path s)) N t
         time_step job_setup False tracer_input_path wait_seconds True ?s3 = (r1, s1, l1)"
      and "l = l1"
      by (auto simp: unfold bind_def ret_def split: sum.splits prod.splits)
    with assms(2) have "job_years req = N \<and> job_tracer_input_path req = tracer_input_path"
      using run_job_init by blast
    with False show ?thesis by auto
  qed
qed


lemma example_check_in_bounds:
  "check_if_parameters_in_bounds example_model [1, 2] s = (Inr (), s, [])"
  by (simp add: check_if_parameters_in_bounds_def example_model_def np_elementwise_def lift_def
      bind_def ret_def)

lemma example_make_run:
  "\<exists>s'. make_run example_model example_spinup_dir [1, 2] (PNum 6000) (PNum 0) 1
          (job_setup_spinup example_model) (Some (example_spinup_dir, 1)) 0 example_filesystem =
        (Inr (example_spinup_dir, 2), s',
         [Job_Init (Run_Dir (example_spinup_dir, 2))
            \<lparr>job_parameters = [1, 2], job_years = 1000, job_tolerance = 0, job_time_step = 1,
             job_write_trajectory = False,
             job_tracer_input_path = Some (example_spinup_dir, 1),
             job_setup_options = job_setup_spinup example_model\<rparr>,
          Job_Start (Run_Dir (example_spinup_dir, 2)),
          Job_Make_Read_Only (Run_Dir (example_spinup_dir, 2))])"
proof -
  have next_dir: "next_run_dir example_spinup_dir example_filesystem = (example_spinup_dir, 2)"
    by (simp add: next_run_dir_def example_filesystem_def example_runs_def)
  have total: "fst (get_total_years (Some (example_spinup_dir, 1)) example_filesystem) = Inr 5000"
    using example_total_years by simp
  let ?s3 = "prepared_run example_spinup_dir 6000 0 1 example_filesystem"
  have "make_run example_model example_spinup_dir [1, 2] (PNum 6000) (PNum 0) 1
          (job_setup_spinup example_model) (Some (example_spinup_dir, 1)) 0 example_filesystem =
        bind (run_job example_model [1, 2] (Run_Dir (example_spinup_dir, 2)) (6000 - 5000) 0 1
                (job_setup_spinup example_model) False (Some (example_spinup_dir, 1)) 0 True)
          (\<lambda>_. ret (example_spinup_dir, 2)) ?s3"
    using total
    by (simp add: make_run_unfold [OF example_check_in_bounds] get_total_years_prepared_run
        next_dir bind_def [where m = "get_total_years (Some (example_spinup_dir, Suc 0))"])
  moreover have "runs_in ?s3 example_spinup_dir =
      Some (example_runs @ [\<lparr>run_options_file = Some (6000, 0, 1), job_file = None\<rparr>])"
    by (simp add: prepared_run_def example_filesystem_def)
  ultimately show ?thesis
    by (simp add: bind_def run_job_def example_check_in_bounds Metos3D_Job_init_def
        Metos3D_Job_start_def Metos3D_Job_make_read_only_def wait_until_job_finished_def
        emit_def ret_def example_runs_def)
qed

theorem make_run_submitted_years_witness:
  "\<exists>s' l req.
     make_run example_model example_spinup_dir [1, 2] (PNum 6000) (PNum 0) 1
       (job_setup_spinup example_model) (Some (example_spinup_dir, 1)) 0 example_filesystem =
       (Inr (example_spinup_dir, 2), s', l)
     \<and> Job_Init (Run_Dir (example_spinup_dir, 2)) req \<in> set l
     \<and> job_years req = 6000 - 5000
     \<and> job_tracer_input_path req = Some (example_spinup_dir, 1)"
proof -
  from example_make_run obtain s' l req where
    run: "make_run example_model example_spinup_dir [1, 2] (PNum 6000) (PNum 0) 1
       (job_setup_spinup example_model) (Some (example_spinup_dir, 1)) 0 example_filesystem =
       (Inr (example_spinup_dir, 2), s', l)"
    and init: "Job_Init (Run_Dir (example_spinup_dir, 2)) req \<in> set l"
    by fastforce
  from make_run_submitted_years [OF run init]
  have "job_years req = 6000 - 5000 \<and> job_tracer_input_path req = Some (example_spinup_dir, 1)"
    using example_total_years by auto
  with run init show ?thesis by blast
qed


end
